theory Spec2Isabelle
  imports Complex_Main "HOL-Library.AList" "HOL-Library.Option_ord" "HOL-Library.Product_Lexorder"
begin

section \<open>Recommendation and study-decision engine\<close>

text \<open>
  A shallow embedding of \<^verbatim>\<open>app/services/recommendation_service.py\<close> and
  \<^verbatim>\<open>app/services/study_decision_service.py\<close>.

  Conventions of the embedding.
  \<^item> Python \<^verbatim>\<open>float\<close> values are reals. The similarity of two users is computed in
    IEEE 754 double precision, with every operation rounded, because a property of it
    depends on the rounding; in averages and scores the binary rounding is not
    represented.
  \<^item> A MongoDB collection is the list of its documents in natural (insertion) order;
    \<^verbatim>\<open>find\<close> without a sort returns matches in that order, \<^verbatim>\<open>find_one\<close> and
    \<^verbatim>\<open>update_one\<close> act on the first match, a sort keeps the relative order of
    documents with equal keys, and \<^verbatim>\<open>$group\<close> emits its groups in the order in which
    their keys first occur.
  \<^item> \<^verbatim>\<open>get_db()\<close> yields \<open>None\<close> when the store is not connected.
  \<^item> A Python \<^verbatim>\<open>dict\<close> is an association list with distinct keys in insertion order.
  \<^item> \<^verbatim>\<open>xs.sort(key=k, reverse=True)\<close> is \<open>rev (sort_key k (rev xs))\<close>: descending and
    stable.
  \<^item> Clock readings are parameters: \<open>now\<close> is what \<^verbatim>\<open>datetime.utcnow()\<close> or
    \<^verbatim>\<open>datetime.now()\<close> returns during the call.
\<close>

subsection \<open>Documents of the store\<close>

text \<open>A document of \<^verbatim>\<open>db.user_ratings\<close>; times are milliseconds.\<close>

record rating_doc =
  user_id :: string
  resource_id :: string
  module_id :: "string option"
  rating :: real
  updated_at :: int
  created_at :: int

text \<open>
  A document of \<^verbatim>\<open>db.resources\<close>. Fields the service reads with a default or
  that the schema declares optional are options.
\<close>

record resource_doc =
  res_id :: string
  title :: string
  res_type :: string
  url :: string
  description :: "string option"
  thumbnail :: "string option"
  res_module_id :: "string option"
  tags :: "string list option"
  average_rating :: "real option"
  rating_count :: "int option"

record db =
  user_ratings :: "rating_doc list"
  resources :: "resource_doc list"

subsection \<open>Store primitives\<close>

text \<open>\<^verbatim>\<open>find_one(query)\<close>: the first document that matches.\<close>

fun find_one :: "('a \<Rightarrow> bool) \<Rightarrow> 'a list \<Rightarrow> 'a option" where
  "find_one q [] = None"
| "find_one q (x # xs) = (if q x then Some x else find_one q xs)"

text \<open>\<^verbatim>\<open>update_one(query, {"$set": ...})\<close> without upsert: the first match is changed.\<close>

fun update_one :: "('a \<Rightarrow> bool) \<Rightarrow> ('a \<Rightarrow> 'a) \<Rightarrow> 'a list \<Rightarrow> 'a list" where
  "update_one q f [] = []"
| "update_one q f (x # xs) = (if q x then f x # xs else x # update_one q f xs)"

text \<open>
  The upsert of \<^verbatim>\<open>rate_resource\<close>: the first document of the pair
  \<open>(user_id, resource_id)\<close> takes the fields of \<^verbatim>\<open>$set\<close> and keeps its
  \<open>created_at\<close>; when there is none, the new document is appended with the
  \<^verbatim>\<open>$setOnInsert\<close> field.
\<close>

fun upsert_rating :: "rating_doc \<Rightarrow> rating_doc list \<Rightarrow> rating_doc list" where
  "upsert_rating d [] = [d]"
| "upsert_rating d (x # xs) =
     (if user_id x = user_id d \<and> resource_id x = resource_id d
      then d\<lparr>created_at := created_at x\<rparr> # xs
      else x # upsert_rating d xs)"

subsection \<open>Rating operations\<close>

text \<open>Python's \<^verbatim>\<open>round(x, 1)\<close>: the nearest multiple of one tenth, ties to even.\<close>

definition round_half_even :: "real \<Rightarrow> int" where
  "round_half_even x =
     (let f = \<lfloor>x\<rfloor>; d = x - of_int f
      in if d < 1 / 2 then f else if 1 / 2 < d then f + 1 else if even f then f else f + 1)"

definition py_round1 :: "real \<Rightarrow> real" where
  "py_round1 x = of_int (round_half_even (x * 10)) / 10"

text \<open>The arithmetic mean that \<^verbatim>\<open>$avg\<close> computes for a non-empty group.\<close>

definition mean :: "real list \<Rightarrow> real" where
  "mean xs = sum_list xs / real (length xs)"

text \<open>\<^verbatim>\<open>db.resources.find_one({"id": resource_id})\<close>.\<close>

definition resource_by_id :: "string \<Rightarrow> resource_doc list \<Rightarrow> resource_doc option" where
  "resource_by_id rid rs = find_one (\<lambda>r. res_id r = rid) rs"

text \<open>The documents matched by \<^verbatim>\<open>{"user_id": user_id, "resource_id": resource_id}\<close>.\<close>

definition ratings_by :: "string \<Rightarrow> string \<Rightarrow> rating_doc list \<Rightarrow> rating_doc list" where
  "ratings_by uid rid rs = filter (\<lambda>d. user_id d = uid \<and> resource_id d = rid) rs"

text \<open>The ratings selected by \<^verbatim>\<open>{"$match": {"resource_id": resource_id}}\<close>.\<close>

definition ratings_of :: "string \<Rightarrow> rating_doc list \<Rightarrow> real list" where
  "ratings_of rid rs = map rating (filter (\<lambda>d. resource_id d = rid) rs)"

definition update_resource_average :: "string \<Rightarrow> db \<Rightarrow> db" where
  "update_resource_average rid d =
     (let result = ratings_of rid (user_ratings d)
      in if result \<noteq> []
         then d\<lparr>resources :=
                  update_one (\<lambda>r. res_id r = rid)
                    (\<lambda>r. r\<lparr>average_rating := Some (py_round1 (mean result)),
                            rating_count := Some (int (length result))\<rparr>)
                    (resources d)\<rparr>
         else d)"

text \<open>The two shapes of the dictionary that \<^verbatim>\<open>rate_resource\<close> returns.\<close>

datatype rate_result = Error string | Success real

text \<open>
  \<^verbatim>\<open>rate_resource\<close> returns its answer and leaves the store in the second component.
\<close>

definition rate_resource ::
  "db option \<Rightarrow> int \<Rightarrow> string \<Rightarrow> string \<Rightarrow> real \<Rightarrow> string option \<Rightarrow> rate_result \<times> db option" where
  "rate_resource dbo now uid rid r mid =
     (case dbo of
        None \<Rightarrow> (Error ''Database not connected'', None)
      | Some d \<Rightarrow>
          if r < 1 \<or> r > 5 then (Error ''Rating must be between 1 and 5'', Some d)
          else
            let rating_doc = \<lparr>user_id = uid, resource_id = rid, module_id = mid, rating = r,
                                updated_at = now, created_at = now\<rparr>;
                d1 = d\<lparr>user_ratings := upsert_rating rating_doc (user_ratings d)\<rparr>;
                d2 = update_resource_average rid d1
            in (Success r, Some d2))"

text \<open>
  \<^verbatim>\<open>get_user_ratings\<close>: the entries \<open>(resource_id, rating, module_id)\<close> of one user.
\<close>

definition get_user_ratings :: "db option \<Rightarrow> string \<Rightarrow> (string \<times> real \<times> string option) list" where
  "get_user_ratings dbo uid =
     (case dbo of
        None \<Rightarrow> []
      | Some d \<Rightarrow> map (\<lambda>x. (resource_id x, rating x, module_id x))
                    (filter (\<lambda>x. user_id x = uid) (user_ratings d)))"

text \<open>
  \<^verbatim>\<open>seed_database.py\<close> creates a unique index on \<open>(user_id, resource_id)\<close>; a store
  that obeys it has no two rating documents with the same pair.
\<close>

definition rating_key :: "rating_doc \<Rightarrow> string \<times> string" where
  "rating_key x = (user_id x, resource_id x)"

definition unique_ratings :: "db \<Rightarrow> bool" where
  "unique_ratings d = distinct (map rating_key (user_ratings d))"

text \<open>The ratings that users other than \<open>uid\<close> hold for a resource.\<close>

definition others_ratings :: "string \<Rightarrow> string \<Rightarrow> rating_doc list \<Rightarrow> real list" where
  "others_ratings uid rid rs =
     map rating (filter (\<lambda>x. resource_id x = rid \<and> user_id x \<noteq> uid) rs)"

text \<open>A sequence of \<^verbatim>\<open>rate_resource\<close> calls, each given as its arguments.\<close>

type_synonym rate_call = "int \<times> string \<times> string \<times> real \<times> string option"

fun rate_all :: "rate_call list \<Rightarrow> db option \<Rightarrow> db option" where
  "rate_all [] dbo = dbo"
| "rate_all ((t, u, rid, r, m) # cs) dbo = rate_all cs (snd (rate_resource dbo t u rid r m))"

subsection \<open>Similarity of two users\<close>

text \<open>A rating vector: the dictionary from resource id to rating.\<close>

type_synonym rating_map = "(string \<times> real) list"

text \<open>\<^verbatim>\<open>{k: v for (k, v) in kvs}\<close>: first insertion fixes the position, the last value stays.\<close>

definition dict_of :: "(string \<times> real) list \<Rightarrow> rating_map" where
  "dict_of kvs = foldl (\<lambda>d (k, v). AList.update k v d) [] kvs"

text \<open>\<open>d[k]\<close> for a key of \<open>d\<close>.\<close>

definition item :: "rating_map \<Rightarrow> string \<Rightarrow> real" where
  "item d k = the (map_of d k)"

text \<open>\<^verbatim>\<open>set(d.keys())\<close>.\<close>

definition keys :: "rating_map \<Rightarrow> string set" where
  "keys d = set (map fst d)"

definition common_items :: "rating_map \<Rightarrow> rating_map \<Rightarrow> string set" where
  "common_items ratings1 ratings2 = keys ratings1 \<inter> keys ratings2"

text \<open>
  Double precision: a real number is rounded to the nearest number with a significand of
  53 bits, ties going to the even significand. The exponent range is not bounded, so
  overflow and subnormal numbers are not represented.
\<close>

definition fl :: "real \<Rightarrow> real" where
  "fl x =
     (if x = 0 then 0
      else let ulp = 2 powr (real_of_int \<lfloor>log 2 \<bar>x\<bar>\<rfloor> - 52)
           in real_of_int (round_half_even (x / ulp)) * ulp)"

text \<open>
  The operations on floats: \<^verbatim>\<open>x + y\<close>, \<^verbatim>\<open>x * y\<close>, \<^verbatim>\<open>x / y\<close> for a divisor that is
  not zero, and \<^verbatim>\<open>math.sqrt(x)\<close>, each the rounded exact result.
\<close>

definition fadd :: "real \<Rightarrow> real \<Rightarrow> real" where
  "fadd x y = fl (x + y)"

definition fmul :: "real \<Rightarrow> real \<Rightarrow> real" where
  "fmul x y = fl (x * y)"

definition fdiv :: "real \<Rightarrow> real \<Rightarrow> real" where
  "fdiv x y = fl (x / y)"

definition fsqrt :: "real \<Rightarrow> real" where
  "fsqrt x = fl (sqrt x)"

text \<open>\<^verbatim>\<open>x ** 2\<close>, taken as the rounded square.\<close>

definition fsquare :: "real \<Rightarrow> real" where
  "fsquare x = fl (x * x)"

text \<open>
  \<^verbatim>\<open>_cosine_similarity\<close>. Two things are decided by the Python runtime and are
  parameters: \<open>order\<close> gives the order in which the set \<^verbatim>\<open>common_items\<close> is iterated,
  and \<open>fsum\<close> is the built-in \<^verbatim>\<open>sum\<close> on a sequence of floats (addition from left to
  right, with a compensation term from Python 3.12 on).
\<close>

definition cosine_similarity ::
  "(string set \<Rightarrow> string list) \<Rightarrow> (real list \<Rightarrow> real) \<Rightarrow> rating_map \<Rightarrow> rating_map \<Rightarrow> real" where
  "cosine_similarity order fsum ratings1 ratings2 =
     (let common = common_items ratings1 ratings2
      in if card common < 2 then 0
         else
           let dot_product = fsum (map (\<lambda>i. fmul (item ratings1 i) (item ratings2 i)) (order common));
               mag1 = fsqrt (fsum (map (\<lambda>i. fsquare (item ratings1 i)) (order common)));
               mag2 = fsqrt (fsum (map (\<lambda>i. fsquare (item ratings2 i)) (order common)))
           in if mag1 = 0 \<or> mag2 = 0 then 0 else fdiv dot_product (fmul mag1 mag2))"

subsection \<open>Sorting and slicing\<close>

definition sort_desc :: "('a \<Rightarrow> 'k::linorder) \<Rightarrow> 'a list \<Rightarrow> 'a list" where
  "sort_desc k xs = rev (sort_key k (rev xs))"

text \<open>The distinct elements of a list, in the order of their first occurrence.\<close>

definition first_occurrences :: "'a list \<Rightarrow> 'a list" where
  "first_occurrences xs = rev (remdups (rev xs))"

text \<open>Python's \<^verbatim>\<open>xs[:n]\<close>, where a negative \<open>n\<close> counts from the end.\<close>

definition slice_to :: "int \<Rightarrow> 'a list \<Rightarrow> 'a list" where
  "slice_to n xs = (if 0 \<le> n then take (nat n) xs else take (nat (int (length xs) + n)) xs)"

text \<open>\<^verbatim>\<open>if module_id:\<close> holds for a string that is present and not empty.\<close>

definition truthy :: "string option \<Rightarrow> bool" where
  "truthy m = (m \<noteq> None \<and> m \<noteq> Some [])"

subsection \<open>Trending resources\<close>

datatype py_error = IndexError | OperationFailure

text \<open>
  An entry of a result list. The keys \<^verbatim>\<open>recommendation_score\<close>,
  \<^verbatim>\<open>recommendation_type\<close> and \<^verbatim>\<open>tags\<close> are absent from some entries.
\<close>

record recommendation =
  rec_id :: string
  rec_title :: string
  rec_type :: string
  rec_url :: string
  rec_description :: "string option"
  rec_thumbnail :: "string option"
  rec_average_rating :: real
  rec_rating_count :: int
  recommendation_score :: "real option"
  recommendation_type :: "string option"
  rec_tags :: "string list option"

text \<open>\<^verbatim>\<open>resource.get("average_rating", 0)\<close> and \<^verbatim>\<open>resource.get("rating_count", 0)\<close>.\<close>

definition get_average_rating :: "resource_doc \<Rightarrow> real" where
  "get_average_rating r = (case average_rating r of None \<Rightarrow> 0 | Some a \<Rightarrow> a)"

definition get_rating_count :: "resource_doc \<Rightarrow> int" where
  "get_rating_count r = (case rating_count r of None \<Rightarrow> 0 | Some c \<Rightarrow> c)"

definition entry ::
  "resource_doc \<Rightarrow> real option \<Rightarrow> string option \<Rightarrow> string list option \<Rightarrow> recommendation" where
  "entry r score kind ts =
     \<lparr>rec_id = res_id r, rec_title = title r, rec_type = res_type r, rec_url = url r,
      rec_description = description r, rec_thumbnail = thumbnail r,
      rec_average_rating = get_average_rating r, rec_rating_count = get_rating_count r,
      recommendation_score = score, recommendation_type = kind, rec_tags = ts\<rparr>"

text \<open>A group of the trending pipeline.\<close>

record rating_group =
  group_id :: string
  recent_ratings :: nat
  avg_rating :: real

text \<open>
  \<^verbatim>\<open>{"$group": {"_id": "$resource_id", "recent_ratings": {"$sum": 1},
  "avg_rating": {"$avg": "$rating"}}}\<close>.
\<close>

definition group_by_resource :: "rating_doc list \<Rightarrow> rating_group list" where
  "group_by_resource rs =
     map (\<lambda>rid. \<lparr>group_id = rid, recent_ratings = length (ratings_of rid rs),
                    avg_rating = mean (ratings_of rid rs)\<rparr>)
       (first_occurrences (map resource_id rs))"

definition week_ms :: int where
  "week_ms = 7 * 24 * 60 * 60 * 1000"

text \<open>
  The aggregation of \<^verbatim>\<open>get_trending_resources\<close> up to its \<^verbatim>\<open>$sort\<close> stage: the
  groups of the ratings of the last seven days whose average is at least 3.5, most
  rated first, then best rated first.
\<close>

definition trending_groups :: "int \<Rightarrow> rating_doc list \<Rightarrow> rating_group list" where
  "trending_groups now rs =
     sort_desc (\<lambda>g. (recent_ratings g, avg_rating g))
       (filter (\<lambda>g. avg_rating g \<ge> 3.5)
         (group_by_resource (filter (\<lambda>d. updated_at d \<ge> now - week_ms) rs)))"

text \<open>
  \<^verbatim>\<open>get_trending_resources\<close>. The \<^verbatim>\<open>$limit\<close> stage rejects a limit that is not
  positive. The second query reads \<^verbatim>\<open>db.resources\<close> without a sort.
\<close>

definition get_trending_resources ::
  "db option \<Rightarrow> int \<Rightarrow> string option \<Rightarrow> int \<Rightarrow> py_error + recommendation list" where
  "get_trending_resources dbo now mid limit =
     (case dbo of
        None \<Rightarrow> Inr []
      | Some d \<Rightarrow>
          if limit \<le> 0 then Inl OperationFailure
          else
            let trending_ids = map group_id (take (nat (limit * 2)) (trending_groups now (user_ratings d)));
                found = filter (\<lambda>r. res_id r \<in> set trending_ids
                                  \<and> (if truthy mid then res_module_id r = mid else True)) (resources d)
            in Inr (map (\<lambda>r. entry r None None (Some (case tags r of None \<Rightarrow> [] | Some ts \<Rightarrow> ts)))
                     (take (nat limit) found)))"

subsection \<open>Recommendations for a user\<close>

record similar_user =
  su_user_id :: string
  similarity :: real
  su_ratings :: rating_map

text \<open>
  The aggregation of \<^verbatim>\<open>_find_similar_users\<close>: every other user with the list of
  \<open>(resource_id, rating)\<close> pairs pushed for that user.
\<close>

definition group_by_user :: "string \<Rightarrow> rating_doc list \<Rightarrow> (string \<times> (string \<times> real) list) list" where
  "group_by_user uid rs =
     (let others = filter (\<lambda>d. user_id d \<noteq> uid) rs
      in map (\<lambda>u. (u, map (\<lambda>d. (resource_id d, rating d)) (filter (\<lambda>d. user_id d = u) others)))
           (first_occurrences (map user_id others)))"

definition find_similar_users ::
  "(string set \<Rightarrow> string list) \<Rightarrow> (real list \<Rightarrow> real) \<Rightarrow> db \<Rightarrow> string
   \<Rightarrow> (string \<times> real \<times> string option) list \<Rightarrow> similar_user list" where
  "find_similar_users order fsum d uid urs =
     (let user_rating_map = dict_of (map (\<lambda>(rid, r, m). (rid, r)) urs);
          candidates =
            map (\<lambda>(u, ratings).
                   let other_rating_map = dict_of ratings
                   in \<lparr>su_user_id = u,
                       similarity = cosine_similarity order fsum user_rating_map other_rating_map,
                       su_ratings = other_rating_map\<rparr>)
              (group_by_user uid (user_ratings d));
          similar_users = filter (\<lambda>s. similarity s > 0.3) candidates
      in take 10 (sort_desc similarity similar_users))"

text \<open>
  \<^verbatim>\<open>resource_scores\<close>: a \<^verbatim>\<open>defaultdict\<close> from resource id to \<open>(score, count)\<close>, kept
  in insertion order.
\<close>

type_synonym score_table = "(string \<times> real \<times> nat) list"

definition add_score :: "string \<Rightarrow> real \<Rightarrow> score_table \<Rightarrow> score_table" where
  "add_score rid w tbl =
     (case map_of tbl rid of
        None \<Rightarrow> AList.update rid (0 + w, 0 + 1) tbl
      | Some (s, c) \<Rightarrow> AList.update rid (s + w, c + 1) tbl)"

definition add_user_scores :: "string set \<Rightarrow> similar_user \<Rightarrow> score_table \<Rightarrow> score_table" where
  "add_user_scores rated u tbl =
     foldl (\<lambda>t (rid, r). if rid \<notin> rated \<and> r \<ge> 4 then add_score rid (r * similarity u) t else t)
       tbl (su_ratings u)"

definition resource_scores :: "string set \<Rightarrow> similar_user list \<Rightarrow> score_table" where
  "resource_scores rated similar_users = foldl (\<lambda>t u. add_user_scores rated u t) [] similar_users"

definition get_collaborative_recommendations ::
  "db \<Rightarrow> similar_user list \<Rightarrow> string set \<Rightarrow> string option \<Rightarrow> recommendation list" where
  "get_collaborative_recommendations d similar_users rated mid =
     concat (map (\<lambda>(rid, score, count).
                    let avg_score = (if count > 0 then score / real count else 0)
                    in case resource_by_id rid (resources d) of
                         None \<Rightarrow> []
                       | Some resource \<Rightarrow>
                           if truthy mid \<and> res_module_id resource \<noteq> mid then []
                           else [entry resource (Some avg_score) (Some ''collaborative'') None])
              (resource_scores rated similar_users))"

definition get_content_based_recommendations ::
  "db \<Rightarrow> string \<Rightarrow> string set \<Rightarrow> recommendation list" where
  "get_content_based_recommendations d mid rated =
     map (\<lambda>r. entry r (Some (get_average_rating r * 0.8)) (Some ''content'') None)
       (take 10 (sort_desc average_rating
          (filter (\<lambda>r. res_module_id r = Some mid \<and> res_id r \<notin> rated) (resources d))))"

text \<open>The loop that keeps the first entry of every id.\<close>

fun remove_duplicates :: "string set \<Rightarrow> recommendation list \<Rightarrow> recommendation list" where
  "remove_duplicates seen [] = []"
| "remove_duplicates seen (r # rs) =
     (if rec_id r \<notin> seen then r # remove_duplicates (insert (rec_id r) seen) rs
      else remove_duplicates seen rs)"

text \<open>\<^verbatim>\<open>x.get("recommendation_score", 0)\<close>.\<close>

definition get_recommendation_score :: "recommendation \<Rightarrow> real" where
  "get_recommendation_score x = (case recommendation_score x of None \<Rightarrow> 0 | Some s \<Rightarrow> s)"

text \<open>\<^verbatim>\<open>rated_resource_ids = {r["resource_id"] for r in user_ratings}\<close>.\<close>

definition rated_resource_ids :: "db option \<Rightarrow> string \<Rightarrow> string set" where
  "rated_resource_ids dbo uid = set (map fst (get_user_ratings dbo uid))"

definition min_ratings_for_recommendation :: nat where
  "min_ratings_for_recommendation = 3"

definition get_recommendations_for_user ::
  "(string set \<Rightarrow> string list) \<Rightarrow> (real list \<Rightarrow> real) \<Rightarrow> db option \<Rightarrow> int \<Rightarrow> string
   \<Rightarrow> string option \<Rightarrow> int \<Rightarrow> py_error + recommendation list" where
  "get_recommendations_for_user order fsum dbo now uid mid limit =
     (case dbo of
        None \<Rightarrow> Inr []
      | Some d \<Rightarrow>
          let urs = get_user_ratings dbo uid;
              rated = rated_resource_ids dbo uid;
              cf = (if length urs \<ge> min_ratings_for_recommendation
                    then get_collaborative_recommendations d
                           (find_similar_users order fsum d uid urs) rated mid
                    else []);
              content = (case mid of
                           None \<Rightarrow> []
                         | Some m \<Rightarrow> if m \<noteq> [] then get_content_based_recommendations d m rated else [])
          in case get_trending_resources dbo now mid 5 of
               Inl e \<Rightarrow> Inl e
             | Inr trending \<Rightarrow>
                 let recommendations =
                       cf @ content @
                       map (\<lambda>r. r\<lparr>recommendation_type := Some ''trending''\<rparr>)
                         (filter (\<lambda>r. rec_id r \<notin> rated) trending);
                     unique_recommendations = remove_duplicates {} recommendations
                 in Inr (slice_to limit (sort_desc get_recommendation_score unique_recommendations)))"

subsection \<open>Study decision: requests and dates\<close>

record ModuleInput =
  m_id :: string
  name :: string
  difficulty :: int
  examDate :: "string option"
  progress :: "int option"

record StudyDecisionRequest =
  mood :: string
  energyLevel :: int
  timeAvailable :: int
  modules :: "ModuleInput list"

record RecommendedModule =
  rm_id :: string
  rm_name :: string
  reason :: string

record StudyDecisionResponse =
  recommendedModule :: RecommendedModule
  recommendedActivity :: string
  suggestedDuration :: int
  explanation :: string
  confidence :: real

text \<open>
  A \<^verbatim>\<open>datetime\<close> in microseconds: naive (wall-clock time, no zone) or aware (an
  instant with a UTC offset). \<^verbatim>\<open>datetime.now()\<close> is naive.
\<close>

datatype datetime = Naive int | Aware int

text \<open>\<^verbatim>\<open>s.replace("Z", "+00:00")\<close>.\<close>

definition replace_Z :: "string \<Rightarrow> string" where
  "replace_Z s = concat (map (\<lambda>c. if c = CHR ''Z'' then ''+00:00'' else [c]) s)"

definition day_us :: int where
  "day_us = 24 * 60 * 60 * 1000000"

text \<open>
  The body of the \<^verbatim>\<open>try\<close> block up to \<^verbatim>\<open>.days\<close>. The library function
  \<^verbatim>\<open>datetime.fromisoformat\<close> is a parameter; it yields \<open>None\<close> where Python raises
  \<^verbatim>\<open>ValueError\<close>. Subtracting the naive \<^verbatim>\<open>datetime.now()\<close> from an aware
  datetime raises \<^verbatim>\<open>TypeError\<close>. The result is \<open>None\<close> when an exception reaches
  the bare \<^verbatim>\<open>except\<close>; \<^verbatim>\<open>timedelta.days\<close> rounds towards minus infinity.
\<close>

definition days_until_exam :: "(string \<Rightarrow> datetime option) \<Rightarrow> int \<Rightarrow> string \<Rightarrow> int option" where
  "days_until_exam fromisoformat now s =
     (case fromisoformat (replace_Z s) of
        None \<Rightarrow> None
      | Some (Aware t) \<Rightarrow> None
      | Some (Naive t) \<Rightarrow> Some ((t - now) div day_us))"

subsection \<open>Study decision: scoring\<close>

definition mood_multiplier :: "string \<Rightarrow> real" where
  "mood_multiplier m =
     (if m = ''low'' then 0.7 else if m = ''medium'' then 1.0 else if m = ''high'' then 1.3 else 1.0)"

definition difficulty_weight :: "int \<Rightarrow> real" where
  "difficulty_weight energy = (if energy \<ge> 7 then 1.5 else if energy \<le> 4 then 0.5 else 1.0)"

text \<open>The local \<^verbatim>\<open>proximity_score\<close>, computed when \<^verbatim>\<open>days_until_exam > 0\<close>.\<close>

definition proximity_score :: "int \<Rightarrow> real" where
  "proximity_score days = 100 / (1 + real_of_int days / 7)"

definition calculate_module_score ::
  "(string \<Rightarrow> datetime option) \<Rightarrow> int \<Rightarrow> ModuleInput \<Rightarrow> StudyDecisionRequest \<Rightarrow> real" where
  "calculate_module_score fromisoformat now m request =
     (let score = 0 + real_of_int (difficulty m) * difficulty_weight (energyLevel request) * 10;
          score = (case examDate m of
                     None \<Rightarrow> score
                   | Some s \<Rightarrow>
                       if s = [] then score
                       else (case days_until_exam fromisoformat now s of
                               None \<Rightarrow> score
                             | Some days \<Rightarrow> if days > 0 then score + proximity_score days else score));
          score = (case progress m of
                     None \<Rightarrow> score
                   | Some p \<Rightarrow> score + real_of_int (100 - p) * 0.5);
          score = score * mood_multiplier (mood request);
          score = score * (real_of_int (energyLevel request) / 10)
      in score)"

definition determine_activity :: "string \<Rightarrow> int \<Rightarrow> int \<Rightarrow> string" where
  "determine_activity md energy_level time_available =
     (if energy_level \<le> 4 \<or> time_available \<le> 30 then ''flashcards''
      else if energy_level \<ge> 7 \<and> time_available \<ge> 90 then ''practice''
      else if time_available \<ge> 60 then ''revise''
      else ''summary'')"

text \<open>Python's \<^verbatim>\<open>int(x)\<close> of a float: truncation towards zero.\<close>

definition py_int :: "real \<Rightarrow> int" where
  "py_int x = (if 0 \<le> x then \<lfloor>x\<rfloor> else \<lceil>x\<rceil>)"

definition activity_multiplier :: "string \<Rightarrow> real" where
  "activity_multiplier a =
     (if a = ''flashcards'' then 0.8 else if a = ''summary'' then 0.9
      else if a = ''revise'' then 1.0 else if a = ''practice'' then 1.1 else 1.0)"

definition calculate_duration :: "int \<Rightarrow> int \<Rightarrow> string \<Rightarrow> int" where
  "calculate_duration time_available energy_level activity =
     (let base_duration = min time_available 120;
          base_duration = (if energy_level \<le> 4 then py_int (real_of_int base_duration * 0.7)
                           else if energy_level \<ge> 8 then py_int (real_of_int base_duration * 1.1)
                           else base_duration);
          duration = py_int (real_of_int base_duration * activity_multiplier activity)
      in max 15 ((duration div 5) * 5))"

text \<open>Decimal digits of an integer, as \<^verbatim>\<open>f"{days}"\<close> prints them.\<close>

fun str_nat :: "nat \<Rightarrow> string" where
  "str_nat n = (if n < 10 then [''0123456789'' ! n] else str_nat (n div 10) @ [''0123456789'' ! (n mod 10)])"

definition str_int :: "int \<Rightarrow> string" where
  "str_int i = (if i < 0 then CHR ''-'' # str_nat (nat (- i)) else str_nat (nat i))"

text \<open>\<^verbatim>\<open>sep.join(xs)\<close>.\<close>

fun join :: "string \<Rightarrow> string list \<Rightarrow> string" where
  "join sep [] = []"
| "join sep [x] = x"
| "join sep (x # y # ys) = x @ sep @ join sep (y # ys)"

text \<open>The list \<^verbatim>\<open>reasons\<close> of \<^verbatim>\<open>_get_reason\<close> when it is joined.\<close>

definition reasons_of :: "(string \<Rightarrow> datetime option) \<Rightarrow> int \<Rightarrow> ModuleInput \<Rightarrow> string list" where
  "reasons_of fromisoformat now m =
     (let reasons = [];
          reasons = (case examDate m of
                       None \<Rightarrow> reasons
                     | Some s \<Rightarrow>
                         if s = [] then reasons
                         else (case days_until_exam fromisoformat now s of
                                 None \<Rightarrow> reasons
                               | Some days \<Rightarrow>
                                   if days > 0 \<and> days \<le> 14
                                   then reasons @ [''Exam in '' @ str_int days @ '' days'']
                                   else reasons));
          reasons = (case progress m of
                       None \<Rightarrow> reasons
                     | Some p \<Rightarrow> if p < 50 then reasons @ [''Low progress''] else reasons);
          reasons = (if difficulty m \<ge> 7 then reasons @ [''High difficulty''] else reasons);
          reasons = (if reasons = [] then reasons @ [''Good time to review''] else reasons)
      in reasons)"

definition get_reason :: "(string \<Rightarrow> datetime option) \<Rightarrow> int \<Rightarrow> ModuleInput \<Rightarrow> string" where
  "get_reason fromisoformat now m = join ''; '' (reasons_of fromisoformat now m)"

text \<open>\<^verbatim>\<open>_calculate_confidence\<close> on the sorted scores.\<close>

definition calculate_confidence :: "real list \<Rightarrow> real" where
  "calculate_confidence scores =
     (case scores of
        top_score # second_score # rest \<Rightarrow>
          if top_score = 0 then 0.5
          else min 0.95 (0.6 + ((top_score - second_score) / top_score) * 0.35)
      | _ \<Rightarrow> 0.8)"

text \<open>
  The values that \<^verbatim>\<open>_generate_explanation\<close> puts into its prompt. The language model
  behind \<^verbatim>\<open>chat_completion\<close> is a parameter; \<^verbatim>\<open>chat_completion\<close> catches the
  provider's exceptions and always returns a string.
\<close>

record prompt =
  p_name :: string
  p_activity :: string
  p_duration :: int
  p_mood :: string
  p_energyLevel :: int
  p_timeAvailable :: int
  p_difficulty :: int
  p_score :: real

definition get_recommendation ::
  "(string \<Rightarrow> datetime option) \<Rightarrow> int \<Rightarrow> (prompt \<Rightarrow> string) \<Rightarrow> StudyDecisionRequest
   \<Rightarrow> py_error + StudyDecisionResponse" where
  "get_recommendation fromisoformat now chat_completion request =
     (let module_scores =
            sort_desc snd
              (map (\<lambda>m. (m, calculate_module_score fromisoformat now m request))
                 (modules request))
      in case module_scores of
           [] \<Rightarrow> Inl IndexError
         | (recommended_module, top_score) # rest \<Rightarrow>
             let recommended_activity =
                   determine_activity (mood request) (energyLevel request) (timeAvailable request);
                 suggested_duration =
                   calculate_duration (timeAvailable request) (energyLevel request) recommended_activity;
                 explanation =
                   chat_completion
                     \<lparr>p_name = name recommended_module, p_activity = recommended_activity,
                      p_duration = suggested_duration, p_mood = mood request,
                      p_energyLevel = energyLevel request, p_timeAvailable = timeAvailable request,
                      p_difficulty = difficulty recommended_module, p_score = top_score\<rparr>;
                 confidence = calculate_confidence (map snd module_scores)
             in Inr \<lparr>recommendedModule =
                       \<lparr>rm_id = m_id recommended_module, rm_name = name recommended_module,
                        reason = get_reason fromisoformat now recommended_module\<rparr>,
                     recommendedActivity = recommended_activity,
                     suggestedDuration = suggested_duration,
                     explanation = explanation,
                     confidence = confidence\<rparr>)"

subsection \<open>Example stores\<close>

text \<open>Two users rated resource \<open>r1\<close> with 4 and 5; the stored average is 4.5.\<close>

definition ex_db :: db where
  "ex_db =
     \<lparr>user_ratings =
        [\<lparr>user_id = ''u1'', resource_id = ''r1'', module_id = None, rating = 4,
          updated_at = 0, created_at = 0\<rparr>,
         \<lparr>user_id = ''u2'', resource_id = ''r1'', module_id = None, rating = 5,
          updated_at = 0, created_at = 0\<rparr>],
      resources =
        [\<lparr>res_id = ''r1'', title = ''Intro'', res_type = ''video'', url = ''http://x'',
          description = None, thumbnail = None, res_module_id = None, tags = None,
          average_rating = Some (9 / 2), rating_count = Some 2\<rparr>]\<rparr>"

text \<open>The store after a third user has rated \<open>r1\<close> with 5 at time 1000.\<close>

definition ex_db_rated :: db where
  "ex_db_rated =
     \<lparr>user_ratings =
        [\<lparr>user_id = ''u1'', resource_id = ''r1'', module_id = None, rating = 4,
          updated_at = 0, created_at = 0\<rparr>,
         \<lparr>user_id = ''u2'', resource_id = ''r1'', module_id = None, rating = 5,
          updated_at = 0, created_at = 0\<rparr>,
         \<lparr>user_id = ''u3'', resource_id = ''r1'', module_id = None, rating = 5,
          updated_at = 1000, created_at = 1000\<rparr>],
      resources =
        [\<lparr>res_id = ''r1'', title = ''Intro'', res_type = ''video'', url = ''http://x'',
          description = None, thumbnail = None, res_module_id = None, tags = None,
          average_rating = Some (47 / 10), rating_count = Some 3\<rparr>]\<rparr>"

text \<open>
  User \<open>u1\<close> rates \<open>r1\<close> with 2 at time 1, then \<open>u2\<close> rates it with 3 at time 2,
  then \<open>u1\<close> rates it again with 5 at time 3: the stores that follow \<open>ex_db\<close>.
\<close>

definition ex_db_first :: db where
  "ex_db_first =
     \<lparr>user_ratings =
        [\<lparr>user_id = ''u1'', resource_id = ''r1'', module_id = None, rating = 2,
          updated_at = 1, created_at = 0\<rparr>,
         \<lparr>user_id = ''u2'', resource_id = ''r1'', module_id = None, rating = 5,
          updated_at = 0, created_at = 0\<rparr>],
      resources =
        [\<lparr>res_id = ''r1'', title = ''Intro'', res_type = ''video'', url = ''http://x'',
          description = None, thumbnail = None, res_module_id = None, tags = None,
          average_rating = Some (7 / 2), rating_count = Some 2\<rparr>]\<rparr>"

definition ex_db_between :: db where
  "ex_db_between =
     \<lparr>user_ratings =
        [\<lparr>user_id = ''u1'', resource_id = ''r1'', module_id = None, rating = 2,
          updated_at = 1, created_at = 0\<rparr>,
         \<lparr>user_id = ''u2'', resource_id = ''r1'', module_id = None, rating = 3,
          updated_at = 2, created_at = 0\<rparr>],
      resources =
        [\<lparr>res_id = ''r1'', title = ''Intro'', res_type = ''video'', url = ''http://x'',
          description = None, thumbnail = None, res_module_id = None, tags = None,
          average_rating = Some (5 / 2), rating_count = Some 2\<rparr>]\<rparr>"

definition ex_db_second :: db where
  "ex_db_second =
     \<lparr>user_ratings =
        [\<lparr>user_id = ''u1'', resource_id = ''r1'', module_id = None, rating = 5,
          updated_at = 3, created_at = 0\<rparr>,
         \<lparr>user_id = ''u2'', resource_id = ''r1'', module_id = None, rating = 3,
          updated_at = 2, created_at = 0\<rparr>],
      resources =
        [\<lparr>res_id = ''r1'', title = ''Intro'', res_type = ''video'', url = ''http://x'',
          description = None, thumbnail = None, res_module_id = None, tags = None,
          average_rating = Some 4, rating_count = Some 2\<rparr>]\<rparr>"

subsection \<open>Example rating vectors\<close>

definition ex_ratings_one :: rating_map where
  "ex_ratings_one = [(''r1'', 5)]"

definition ex_ratings_ones :: rating_map where
  "ex_ratings_ones = [(''x'', 1), (''y'', 1)]"

definition ex_ratings_a :: rating_map where
  "ex_ratings_a = [(''r1'', 3), (''r2'', 4)]"

definition ex_ratings_b :: rating_map where
  "ex_ratings_b = [(''r2'', 5), (''r1'', 1), (''r3'', 2)]"

text \<open>An iteration order for the sets of the examples: their ids in alphabetical order.\<close>

definition ex_order :: "string set \<Rightarrow> string list" where
  "ex_order S = filter (\<lambda>k. k \<in> S) [''r1'', ''r2'', ''r3'', ''r4'', ''r5'', ''x'', ''y'']"

text \<open>Addition from left to right, starting from 0.\<close>

definition sum_left :: "real list \<Rightarrow> real" where
  "sum_left ts = foldl fadd 0 ts"

subsection \<open>Example study requests\<close>

text \<open>The naive local time 2030-01-01 00:00:00, in microseconds since 1970-01-01 00:00:00.\<close>

definition ex_now :: int where
  "ex_now = 1893456000000000"

text \<open>
  What \<^verbatim>\<open>datetime.fromisoformat\<close> returns on three strings; every other string of the
  examples is one that it rejects.
\<close>

definition ex_fromisoformat :: "string \<Rightarrow> datetime option" where
  "ex_fromisoformat s =
     (if s = ''2030-01-01T12:00:00'' then Some (Naive 1893499200000000)
      else if s = ''2030-01-15T00:00:00'' then Some (Naive 1894665600000000)
      else if s = ''2030-01-15T00:00:00+00:00'' then Some (Aware 1894665600000000)
      else None)"

definition ex_chat_completion :: "prompt \<Rightarrow> string" where
  "ex_chat_completion p = ''Study '' @ p_name p"

definition ex_module :: "string option \<Rightarrow> ModuleInput" where
  "ex_module exam =
     \<lparr>m_id = ''1'', name = ''Math'', difficulty = 5, examDate = exam, progress = Some 50\<rparr>"

definition ex_request :: "ModuleInput list \<Rightarrow> StudyDecisionRequest" where
  "ex_request ms = \<lparr>mood = ''medium'', energyLevel = 5, timeAvailable = 60, modules = ms\<rparr>"

text \<open>The module list in which the exam date of module \<open>m\<close> is erased.\<close>

definition forget_exam :: "ModuleInput \<Rightarrow> ModuleInput \<Rightarrow> ModuleInput" where
  "forget_exam m x = (if x = m then m\<lparr>examDate := None\<rparr> else x)"

section \<open>Properties of the rating store\<close>

lemma upsert_rating_keys:
  "set (map rating_key (upsert_rating d rs)) = insert (rating_key d) (set (map rating_key rs))"
  by (induction rs) (auto simp: rating_key_def)

lemma upsert_rating_distinct:
  "distinct (map rating_key rs) \<Longrightarrow> distinct (map rating_key (upsert_rating d rs))"
proof (induction rs)
  case Nil
  then show ?case by simp
next
  case (Cons x xs)
  show ?case
  proof (cases "rating_key x = rating_key d")
    case True
    with Cons.prems show ?thesis by (simp add: rating_key_def)
  next
    case False
    then have "upsert_rating d (x # xs) = x # upsert_rating d xs"
      by (auto simp: rating_key_def)
    moreover have "rating_key x \<notin> set (map rating_key (upsert_rating d xs))"
      using False Cons.prems by (simp only: upsert_rating_keys) auto
    ultimately show ?thesis using Cons by simp
  qed
qed

lemma upsert_rating_own:
  "distinct (map rating_key rs) \<Longrightarrow>
   map rating (ratings_by (user_id d) (resource_id d) (upsert_rating d rs)) = [rating d]"
proof (induction rs)
  case Nil
  then show ?case by (simp add: ratings_by_def)
next
  case (Cons x xs)
  show ?case
  proof (cases "user_id x = user_id d \<and> resource_id x = resource_id d")
    case True
    from Cons.prems have "rating_key x \<notin> rating_key ` set xs" by simp
    then have "rating_key y \<noteq> rating_key x" if "y \<in> set xs" for y
      using that by (metis imageI)
    then have "ratings_by (user_id d) (resource_id d) xs = []"
      using True by (auto simp: rating_key_def ratings_by_def filter_empty_conv)
    with True show ?thesis by (simp add: ratings_by_def)
  next
    case False
    with Cons show ?thesis by (auto simp: ratings_by_def)
  qed
qed

lemma upsert_rating_others:
  "user_id d = uid \<Longrightarrow> resource_id d = rid \<Longrightarrow>
   others_ratings uid rid (upsert_rating d rs) = others_ratings uid rid rs"
  by (induction rs) (auto simp: others_ratings_def)

lemma find_one_update_one:
  "(\<And>x. q x \<Longrightarrow> q (f x)) \<Longrightarrow> find_one q (update_one q f xs) = map_option f (find_one q xs)"
  by (induction xs) auto

lemma round_half_even_error: "\<bar>of_int (round_half_even x) - x\<bar> \<le> 1 / 2"
  unfolding round_half_even_def Let_def by (auto; linarith)

lemma py_round1_error: "\<bar>py_round1 x - x\<bar> \<le> 1 / 20"
proof -
  have "\<bar>of_int (round_half_even (x * 10)) - x * 10\<bar> \<le> 1 / 2"
    by (rule round_half_even_error)
  then show ?thesis unfolding py_round1_def by (simp add: field_simps abs_le_iff)
qed

lemma update_resource_average_ratings [simp]:
  "user_ratings (update_resource_average rid d) = user_ratings d"
  by (simp add: update_resource_average_def Let_def)

lemma rate_resource_cases:
  "rate_resource (Some d) now uid rid r mid =
     (if r < 1 \<or> r > 5 then (Error ''Rating must be between 1 and 5'', Some d)
      else (Success r, Some (update_resource_average rid
              (d\<lparr>user_ratings := upsert_rating
                  \<lparr>user_id = uid, resource_id = rid, module_id = mid, rating = r,
                   updated_at = now, created_at = now\<rparr> (user_ratings d)\<rparr>))))"
  by (simp add: rate_resource_def Let_def)

lemma ratings_of_upsert_nonempty:
  "ratings_of rid (upsert_rating \<lparr>user_id = uid, resource_id = rid, module_id = mid, rating = r,
                   updated_at = now, created_at = now\<rparr> rs) \<noteq> []"
  by (induction rs) (auto simp: ratings_of_def)

lemma update_resource_average_stored:
  assumes "ratings_of rid (user_ratings d) \<noteq> []"
    and "resource_by_id rid (resources (update_resource_average rid d)) = Some x"
  shows "average_rating x = Some (py_round1 (mean (ratings_of rid (user_ratings d))))
       \<and> rating_count x = Some (int (length (ratings_of rid (user_ratings d))))"
proof -
  let ?f = "\<lambda>r. r\<lparr>average_rating := Some (py_round1 (mean (ratings_of rid (user_ratings d)))),
                      rating_count := Some (int (length (ratings_of rid (user_ratings d))))\<rparr>"
  have "resources (update_resource_average rid d) = update_one (\<lambda>r. res_id r = rid) ?f (resources d)"
    using assms(1) by (simp add: update_resource_average_def Let_def)
  then have "map_option ?f (find_one (\<lambda>x. res_id x = rid) (resources d)) = Some x"
    using assms(2) by (simp add: find_one_update_one resource_by_id_def)
  then show ?thesis by auto
qed

lemma ex_db_rate:
  "rate_resource (Some ex_db) 1000 ''u3'' ''r1'' 5 None = (Success 5, Some ex_db_rated)"
  by (simp add: rate_resource_def ex_db_def ex_db_rated_def update_resource_average_def
      ratings_of_def mean_def py_round1_def round_half_even_def Let_def)

lemma ex_db_rated_mean: "mean (ratings_of ''r1'' (user_ratings ex_db_rated)) = 14 / 3"
  by (simp add: ex_db_rated_def ratings_of_def mean_def)

lemma ex_db_rated_resource:
  "resource_by_id ''r1'' (resources ex_db_rated) =
     Some \<lparr>res_id = ''r1'', title = ''Intro'', res_type = ''video'', url = ''http://x'',
           description = None, thumbnail = None, res_module_id = None, tags = None,
           average_rating = Some (47 / 10), rating_count = Some 3\<rparr>"
  by (simp add: ex_db_rated_def resource_by_id_def)

text \<open>
  C7. A rating below 1 or above 5 is answered with an error and the store is returned as it
  was: no rating document is written or changed, and no resource is touched.
\<close>

theorem rate_resource_invalid_rating:
  assumes "r < 1 \<or> 5 < r"
  shows "\<exists>msg. rate_resource dbo now uid rid r mid = (Error msg, dbo)"
  using assms by (cases dbo) (auto simp: rate_resource_def)

theorem rate_resource_invalid_rating_witness:
  "((6::real) < 1 \<or> 5 < (6::real)) \<and>
   rate_resource (Some ex_db) 1000 ''u3'' ''r1'' 6 None =
     (Error ''Rating must be between 1 and 5'', Some ex_db)"
  using rate_resource_invalid_rating [of 6 "Some ex_db" 1000 "''u3''" "''r1''" None]
  by (simp add: rate_resource_def)

text \<open>
  C1, as the code has it. After a successful \<^verbatim>\<open>rate_resource\<close>, the document of the
  rated resource (when the collection holds one) stores the mean of all current ratings of
  that resource rounded to one decimal place, which is within 0.05 of the mean, and the
  number of those ratings.
\<close>

theorem rate_resource_stores_rounded_mean:
  assumes "rate_resource (Some d) now uid rid r mid = (Success r', Some d')"
    and "resource_by_id rid (resources d') = Some x"
  shows "average_rating x = Some (py_round1 (mean (ratings_of rid (user_ratings d'))))
       \<and> \<bar>py_round1 (mean (ratings_of rid (user_ratings d'))) - mean (ratings_of rid (user_ratings d'))\<bar> \<le> 1 / 20
       \<and> rating_count x = Some (int (length (ratings_of rid (user_ratings d'))))"
proof -
  let ?d1 = "d\<lparr>user_ratings := upsert_rating
                  \<lparr>user_id = uid, resource_id = rid, module_id = mid, rating = r,
                   updated_at = now, created_at = now\<rparr> (user_ratings d)\<rparr>"
  from assms(1) have d': "d' = update_resource_average rid ?d1"
    by (auto simp: rate_resource_cases split: if_splits)
  have ne: "ratings_of rid (user_ratings ?d1) \<noteq> []"
    by (simp add: ratings_of_upsert_nonempty)
  have "average_rating x = Some (py_round1 (mean (ratings_of rid (user_ratings ?d1))))
       \<and> rating_count x = Some (int (length (ratings_of rid (user_ratings ?d1))))"
    using update_resource_average_stored [OF ne] assms(2) unfolding d' by blast
  then show ?thesis unfolding d'
    using py_round1_error [of "mean (ratings_of rid (user_ratings ?d1))"] by simp
qed

theorem rate_resource_stores_rounded_mean_witness:
  "rate_resource (Some ex_db) 1000 ''u3'' ''r1'' 5 None = (Success 5, Some ex_db_rated)
   \<and> map_option average_rating (resource_by_id ''r1'' (resources ex_db_rated))
       = Some (Some (py_round1 (mean (ratings_of ''r1'' (user_ratings ex_db_rated)))))
   \<and> map_option rating_count (resource_by_id ''r1'' (resources ex_db_rated))
       = Some (Some (int (length (ratings_of ''r1'' (user_ratings ex_db_rated)))))"
  using rate_resource_stores_rounded_mean [OF ex_db_rate ex_db_rated_resource]
    ex_db_rate ex_db_rated_resource
  by simp

text \<open>
  The claim C1 as written fails: with ratings 4, 5 and 5 the mean is 14/3, and the stored
  average is 4.7.
\<close>

theorem rate_resource_exact_mean_counterexample:
  "fst (rate_resource (Some ex_db) 1000 ''u3'' ''r1'' 5 None) = Success 5
   \<and> map_option average_rating
        (resource_by_id ''r1'' (resources (the (snd (rate_resource (Some ex_db) 1000 ''u3'' ''r1'' 5 None)))))
       = Some (Some (47 / 10))
   \<and> mean (ratings_of ''r1''
        (user_ratings (the (snd (rate_resource (Some ex_db) 1000 ''u3'' ''r1'' 5 None))))) = 14 / 3
   \<and> map_option average_rating
        (resource_by_id ''r1'' (resources (the (snd (rate_resource (Some ex_db) 1000 ''u3'' ''r1'' 5 None)))))
       \<noteq> Some (Some (mean (ratings_of ''r1''
            (user_ratings (the (snd (rate_resource (Some ex_db) 1000 ''u3'' ''r1'' 5 None)))))))"
  by (simp add: ex_db_rate ex_db_rated_mean ex_db_rated_resource)

lemma rate_resource_unique:
  assumes "unique_ratings d" and "snd (rate_resource (Some d) t u rid r m) = Some d'"
  shows "unique_ratings d'"
proof (cases "r < 1 \<or> r > 5")
  case True
  then show ?thesis using assms by (simp add: rate_resource_cases)
next
  case False
  then have "user_ratings d' = upsert_rating
                  \<lparr>user_id = u, resource_id = rid, module_id = m, rating = r,
                   updated_at = t, created_at = t\<rparr> (user_ratings d)"
    using assms(2) by (auto simp: rate_resource_cases)
  then show ?thesis using assms(1) by (simp add: unique_ratings_def upsert_rating_distinct)
qed

lemma rate_resource_connected:
  "\<exists>d'. snd (rate_resource (Some d) t u rid r m) = Some d'"
  by (simp add: rate_resource_cases)

lemma rate_all_unique:
  "unique_ratings d \<Longrightarrow> rate_all cs (Some d) = Some d' \<Longrightarrow> unique_ratings d'"
proof (induction cs arbitrary: d)
  case Nil
  then show ?case by simp
next
  case (Cons c cs)
  obtain t u rid r m where c: "c = (t, u, rid, r, m)" by (cases c)
  obtain d1 where d1: "snd (rate_resource (Some d) t u rid r m) = Some d1"
    using rate_resource_connected by blast
  have "unique_ratings d1" using Cons.prems(1) d1 by (rule rate_resource_unique)
  moreover have "rate_all cs (Some d1) = Some d'" using Cons.prems(2) c d1 by simp
  ultimately show ?case by (rule Cons.IH)
qed

lemma ratings_of_split:
  "sum_list (ratings_of rid rs) = sum_list (others_ratings uid rid rs) + sum_list (map rating (ratings_by uid rid rs))"
  "length (ratings_of rid rs) = length (others_ratings uid rid rs) + length (map rating (ratings_by uid rid rs))"
  by (induction rs) (auto simp: ratings_of_def others_ratings_def ratings_by_def)

lemma upsert_rating_split:
  assumes "distinct (map rating_key rs)" and "user_id d = uid" and "resource_id d = rid"
  shows "sum_list (ratings_of rid (upsert_rating d rs)) = sum_list (others_ratings uid rid rs) + rating d"
    and "length (ratings_of rid (upsert_rating d rs)) = length (others_ratings uid rid rs) + 1"
proof -
  have own: "map rating (ratings_by uid rid (upsert_rating d rs)) = [rating d]"
    using upsert_rating_own [OF assms(1), of d] assms(2,3) by simp
  have oth: "others_ratings uid rid (upsert_rating d rs) = others_ratings uid rid rs"
    using assms(2,3) by (rule upsert_rating_others)
  show "sum_list (ratings_of rid (upsert_rating d rs)) = sum_list (others_ratings uid rid rs) + rating d"
    unfolding ratings_of_split(1) [of rid "upsert_rating d rs" uid] own oth by simp
  show "length (ratings_of rid (upsert_rating d rs)) = length (others_ratings uid rid rs) + 1"
    unfolding ratings_of_split(2) [of rid "upsert_rating d rs" uid] own oth by simp
qed

text \<open>
  C2. In a store that obeys the unique index, let a user rate a resource with \<open>r1\<close>, let
  any sequence of further \<^verbatim>\<open>rate_resource\<close> calls follow, and let the same user rate
  the same resource with \<open>r2\<close>. After the first call the pair has one rating document,
  with value \<open>r1\<close>; after the last it still has exactly one, with value \<open>r2\<close>, and the
  recomputed aggregates of the resource are built from \<open>r2\<close> and the ratings of the other
  users only.
\<close>

theorem rate_twice_keeps_last:
  assumes uniq: "unique_ratings d0"
    and r1: "1 \<le> r1 \<and> r1 \<le> 5" and r2: "1 \<le> r2 \<and> r2 \<le> 5"
    and first: "snd (rate_resource (Some d0) t1 uid rid r1 m1) = Some d1"
    and later: "rate_all cs (Some d1) = Some d"
    and second: "snd (rate_resource (Some d) t2 uid rid r2 m2) = Some d'"
  shows "map rating (ratings_by uid rid (user_ratings d1)) = [r1]
       \<and> map rating (ratings_by uid rid (user_ratings d')) = [r2]
       \<and> (\<forall>x. resource_by_id rid (resources d') = Some x \<longrightarrow>
            average_rating x =
              Some (py_round1 ((sum_list (others_ratings uid rid (user_ratings d)) + r2)
                               / real (length (others_ratings uid rid (user_ratings d)) + 1)))
          \<and> rating_count x = Some (int (length (others_ratings uid rid (user_ratings d)) + 1)))"
proof -
  have "unique_ratings d1" using uniq first by (rule rate_resource_unique)
  then have ud: "unique_ratings d" using later by (rule rate_all_unique)
  have dist0: "distinct (map rating_key (user_ratings d0))" using uniq by (simp add: unique_ratings_def)
  let ?doc1 = "\<lparr>user_id = uid, resource_id = rid, module_id = m1, rating = r1,
                updated_at = t1, created_at = t1\<rparr>"
  have rs1: "user_ratings d1 = upsert_rating ?doc1 (user_ratings d0)"
    using first r1 by (auto simp: rate_resource_cases)
  have own1: "map rating (ratings_by uid rid (user_ratings d1)) = [r1]"
    unfolding rs1 using upsert_rating_own [OF dist0, of ?doc1] by simp
  let ?doc = "\<lparr>user_id = uid, resource_id = rid, module_id = m2, rating = r2,
                updated_at = t2, created_at = t2\<rparr>"
  let ?rs = "upsert_rating ?doc (user_ratings d)"
  have d': "d' = update_resource_average rid (d\<lparr>user_ratings := ?rs\<rparr>)"
    using second r2 by (auto simp: rate_resource_cases)
  have rs': "user_ratings d' = ?rs" unfolding d' by simp
  have dist: "distinct (map rating_key (user_ratings d))" using ud by (simp add: unique_ratings_def)
  have own: "map rating (ratings_by uid rid ?rs) = [r2]"
    using upsert_rating_own [OF dist, of ?doc] by simp
  have s: "sum_list (ratings_of rid ?rs) = sum_list (others_ratings uid rid (user_ratings d)) + r2"
    using upsert_rating_split(1) [OF dist, of ?doc uid rid] by simp
  have l: "length (ratings_of rid ?rs) = length (others_ratings uid rid (user_ratings d)) + 1"
    using upsert_rating_split(2) [OF dist, of ?doc uid rid] by simp
  have ne: "ratings_of rid (user_ratings (d\<lparr>user_ratings := ?rs\<rparr>)) \<noteq> []"
    by (simp add: ratings_of_upsert_nonempty)
  have agg: "average_rating x = Some (py_round1 (mean (ratings_of rid ?rs)))
       \<and> rating_count x = Some (int (length (ratings_of rid ?rs)))"
    if "resource_by_id rid (resources d') = Some x" for x
    using update_resource_average_stored [OF ne, of x] that unfolding d' by simp
  show ?thesis
  proof (intro conjI allI impI)
    show "map rating (ratings_by uid rid (user_ratings d1)) = [r1]"
      by (rule own1)
    show "map rating (ratings_by uid rid (user_ratings d')) = [r2]"
      using own rs' by simp
  next
    fix x assume x: "resource_by_id rid (resources d') = Some x"
    show "average_rating x =
              Some (py_round1 ((sum_list (others_ratings uid rid (user_ratings d)) + r2)
                               / real (length (others_ratings uid rid (user_ratings d)) + 1)))"
      using agg [OF x] by (simp add: mean_def s l)
    show "rating_count x = Some (int (length (others_ratings uid rid (user_ratings d)) + 1))"
      using agg [OF x] by (simp add: l)
  qed
qed

lemmas ex_eval = rate_resource_def update_resource_average_def ratings_of_def mean_def
  py_round1_def round_half_even_def Let_def

lemma ex_first: "snd (rate_resource (Some ex_db) 1 ''u1'' ''r1'' 2 None) = Some ex_db_first"
  by (simp add: ex_eval ex_db_def ex_db_first_def)

lemma ex_between: "rate_all [(2, ''u2'', ''r1'', 3, None)] (Some ex_db_first) = Some ex_db_between"
  by (simp add: ex_eval ex_db_first_def ex_db_between_def)

lemma ex_second: "snd (rate_resource (Some ex_db_between) 3 ''u1'' ''r1'' 5 None) = Some ex_db_second"
  by (simp add: ex_eval ex_db_between_def ex_db_second_def)

lemma ex_db_unique: "unique_ratings ex_db"
  by (simp add: unique_ratings_def ex_db_def rating_key_def)

lemma ex_second_resource:
  "resource_by_id ''r1'' (resources ex_db_second) =
     Some \<lparr>res_id = ''r1'', title = ''Intro'', res_type = ''video'', url = ''http://x'',
          description = None, thumbnail = None, res_module_id = None, tags = None,
          average_rating = Some 4, rating_count = Some 2\<rparr>"
  by (simp add: ex_db_second_def resource_by_id_def)

theorem rate_twice_keeps_last_witness:
  "unique_ratings ex_db
   \<and> snd (rate_resource (Some ex_db) 1 ''u1'' ''r1'' 2 None) = Some ex_db_first
   \<and> rate_all [(2, ''u2'', ''r1'', 3, None)] (Some ex_db_first) = Some ex_db_between
   \<and> snd (rate_resource (Some ex_db_between) 3 ''u1'' ''r1'' 5 None) = Some ex_db_second
   \<and> map rating (ratings_by ''u1'' ''r1'' (user_ratings ex_db_first)) = [2]
   \<and> map rating (ratings_by ''u1'' ''r1'' (user_ratings ex_db_second)) = [5]
   \<and> others_ratings ''u1'' ''r1'' (user_ratings ex_db_between) = [3]
   \<and> map_option average_rating (resource_by_id ''r1'' (resources ex_db_second)) = Some (Some ((3 + 5) / 2))
   \<and> map_option rating_count (resource_by_id ''r1'' (resources ex_db_second)) = Some (Some 2)"
proof -
  have r1: "1 \<le> (2::real) \<and> (2::real) \<le> 5" and r2: "1 \<le> (5::real) \<and> (5::real) \<le> 5" by simp_all
  have oth: "others_ratings ''u1'' ''r1'' (user_ratings ex_db_between) = [3]"
    by (simp add: others_ratings_def ex_db_between_def)
  have rnd: "py_round1 ((3 + 5) / 2) = (3 + 5) / 2"
    by (simp add: py_round1_def round_half_even_def)
  note inst = rate_twice_keeps_last [OF ex_db_unique r1 r2 ex_first ex_between ex_second]
  from inst have "map rating (ratings_by ''u1'' ''r1'' (user_ratings ex_db_first)) = [2]"
    and "map rating (ratings_by ''u1'' ''r1'' (user_ratings ex_db_second)) = [5]"
    by blast+
  moreover from inst ex_second_resource
  have "map_option average_rating (resource_by_id ''r1'' (resources ex_db_second)) = Some (Some ((3 + 5) / 2))"
    and "map_option rating_count (resource_by_id ''r1'' (resources ex_db_second)) = Some (Some 2)"
    by (simp_all add: oth)
  ultimately show ?thesis
    using ex_db_unique ex_first ex_between ex_second oth by simp
qed

section \<open>Properties of the similarity\<close>

subsection \<open>Rounding\<close>

lemma round_half_even_unique:
  assumes "\<bar>x - real_of_int m\<bar> < 1 / 2"
  shows "round_half_even x = m"
proof -
  have "\<lfloor>x\<rfloor> = m \<or> \<lfloor>x\<rfloor> = m - 1" using assms by linarith
  then show ?thesis
  proof
    assume f: "\<lfloor>x\<rfloor> = m"
    then have "x - real_of_int m < 1 / 2" using assms by linarith
    then show ?thesis using f by (simp add: round_half_even_def Let_def)
  next
    assume f: "\<lfloor>x\<rfloor> = m - 1"
    have "real_of_int (m - 1) = real_of_int m - 1" by simp
    then have "1 / 2 < x - real_of_int (m - 1)" using assms by linarith
    then show ?thesis using f by (simp add: round_half_even_def Let_def)
  qed
qed

lemma round_half_even_of_int [simp]: "round_half_even (real_of_int m) = m"
  by (rule round_half_even_unique) simp

lemma fl_binade:
  assumes "2 powr real_of_int e \<le> \<bar>x\<bar>" and "\<bar>x\<bar> < 2 powr (real_of_int e + 1)"
  shows "fl x = real_of_int (round_half_even (x / 2 powr (real_of_int e - 52))) * 2 powr (real_of_int e - 52)"
proof -
  have pos: "0 < \<bar>x\<bar>" using assms(1) by (smt (verit) powr_gt_zero)
  then have "\<lfloor>log 2 \<bar>x\<bar>\<rfloor> = e"
    using assms by (simp add: floor_log_eq_powr_iff)
  then show ?thesis using pos by (simp add: fl_def Let_def)
qed

lemma fl_error: "\<bar>fl x - x\<bar> \<le> \<bar>x\<bar> / 2 ^ 53"
proof (cases "x = 0")
  case True
  then show ?thesis by (simp add: fl_def)
next
  case False
  define e where "e = \<lfloor>log 2 \<bar>x\<bar>\<rfloor>"
  define ulp where "ulp = 2 powr (real_of_int e - 52)"
  have ulp_pos: "0 < ulp" by (simp add: ulp_def)
  have "2 powr real_of_int e \<le> \<bar>x\<bar>"
    using False floor_log_eq_powr_iff [of "\<bar>x\<bar>" 2 e] by (simp add: e_def)
  moreover have "2 powr real_of_int e = ulp * 2 ^ 52"
    by (simp add: ulp_def powr_diff)
  ultimately have lower: "ulp * 2 ^ 52 \<le> \<bar>x\<bar>" by simp
  have flx: "fl x = real_of_int (round_half_even (x / ulp)) * ulp"
    using False by (simp add: fl_def Let_def ulp_def e_def)
  have "\<bar>fl x - x\<bar> = \<bar>real_of_int (round_half_even (x / ulp)) - x / ulp\<bar> * ulp"
  proof -
    have "fl x - x = (real_of_int (round_half_even (x / ulp)) - x / ulp) * ulp"
      using ulp_pos by (simp add: flx field_simps)
    then show ?thesis using ulp_pos by (simp add: abs_mult)
  qed
  also have "\<dots> \<le> (1 / 2) * ulp"
    using round_half_even_error [of "x / ulp"] ulp_pos by (intro mult_right_mono) simp_all
  also have "\<dots> \<le> \<bar>x\<bar> / 2 ^ 53"
    using lower by (simp add: field_simps)
  finally show ?thesis .
qed

lemma fl_pos: "0 < x \<Longrightarrow> 0 < fl x"
proof -
  assume x: "0 < x"
  have "\<bar>fl x - x\<bar> \<le> x / 9007199254740992" using fl_error [of x] x by simp
  then show ?thesis using x by linarith
qed


lemma fl_rel:
  assumes "x \<noteq> 0"
  obtains \<delta> where "\<bar>\<delta>\<bar> \<le> 1 / 2 ^ 53" and "fl x = x * (1 + \<delta>)"
proof
  show "\<bar>(fl x - x) / x\<bar> \<le> 1 / 2 ^ 53"
    using fl_error [of x] assms by (simp add: abs_divide field_simps)
  show "fl x = x * (1 + (fl x - x) / x)"
    using assms by (simp add: field_simps)
qed

lemma quotient_near_one:
  fixes a b c :: real
  assumes "\<bar>a\<bar> \<le> 1 / 2 ^ 53" and "\<bar>b\<bar> \<le> 1 / 2 ^ 53" and "\<bar>c\<bar> \<le> 1 / 2 ^ 53"
  shows "\<bar>(1 + c) / ((1 + a) * (1 + a) * (1 + b)) - 1\<bar> \<le> 1 / 2 ^ 50"
proof -
  define u :: real where "u = 1 / 2 ^ 53"
  have u: "u = 1 / 9007199254740992" by (simp add: u_def)
  have a: "1 - u \<le> 1 + a" "1 + a \<le> 1 + u" and b: "1 - u \<le> 1 + b" "1 + b \<le> 1 + u"
    and c: "1 - u \<le> 1 + c" "1 + c \<le> 1 + u"
    using assms unfolding u_def by (simp_all add: abs_le_iff)
  have upos: "0 < 1 - u" by (simp add: u)
  have nn: "0 \<le> 1 - u" "0 \<le> 1 + u" "0 \<le> 1 + a" "0 \<le> 1 + b"
    using a(1) b(1) upos by (simp_all add: u)
  have lo2: "(1 - u) * (1 - u) \<le> (1 + a) * (1 + a)"
    by (rule mult_mono [OF a(1) a(1) nn(3) nn(1)])
  have hi2: "(1 + a) * (1 + a) \<le> (1 + u) * (1 + u)"
    by (rule mult_mono [OF a(2) a(2) nn(2) nn(3)])
  have sq: "0 \<le> (1 + a) * (1 + a)" "0 \<le> (1 + u) * (1 + u)"
    using nn by simp_all
  have lo3: "(1 - u) * (1 - u) * (1 - u) \<le> (1 + a) * (1 + a) * (1 + b)"
    by (rule mult_mono [OF lo2 b(1) sq(1) nn(1)])
  have hi3: "(1 + a) * (1 + a) * (1 + b) \<le> (1 + u) * (1 + u) * (1 + u)"
    by (rule mult_mono [OF hi2 b(2) sq(2) nn(4)])
  have dpos: "0 < (1 - u) * (1 - u) * (1 - u)" using upos by simp
  then have dpos': "0 < (1 + a) * (1 + a) * (1 + b)" using lo3 by linarith
  have "(1 + c) / ((1 + a) * (1 + a) * (1 + b)) \<le> (1 + u) / ((1 - u) * (1 - u) * (1 - u))"
    using c upos dpos lo3 by (intro frac_le) simp_all
  also have "\<dots> \<le> 1 + 1 / 2 ^ 50" by (simp add: u field_simps)
  finally have upper: "(1 + c) / ((1 + a) * (1 + a) * (1 + b)) \<le> 1 + 1 / 2 ^ 50" .
  have "1 - 1 / 2 ^ 50 \<le> (1 - u) / ((1 + u) * (1 + u) * (1 + u))" by (simp add: u field_simps)
  also have "\<dots> \<le> (1 + c) / ((1 + a) * (1 + a) * (1 + b))"
    using c upos dpos' hi3 by (intro frac_le) simp_all
  finally have lower: "1 - 1 / 2 ^ 50 \<le> (1 + c) / ((1 + a) * (1 + a) * (1 + b))" .
  show ?thesis unfolding abs_le_iff using upper lower by linarith
qed

lemma self_quotient:
  assumes "0 < s"
  shows "\<bar>fdiv s (fmul (fsqrt s) (fsqrt s)) - 1\<bar> \<le> 1 / 2 ^ 50" and "fsqrt s \<noteq> 0"
proof -
  have r: "sqrt s \<noteq> 0" "0 < sqrt s" using assms by simp_all
  obtain a where a: "\<bar>a\<bar> \<le> 1 / 2 ^ 53" "fl (sqrt s) = sqrt s * (1 + a)"
    using fl_rel [OF r(1)] by blast
  have m: "0 < fl (sqrt s)" using r(2) by (rule fl_pos)
  then show "fsqrt s \<noteq> 0" by (simp add: fsqrt_def)
  have mm: "fl (sqrt s) * fl (sqrt s) \<noteq> 0" using m by simp
  obtain b where b: "\<bar>b\<bar> \<le> 1 / 2 ^ 53"
      "fl (fl (sqrt s) * fl (sqrt s)) = fl (sqrt s) * fl (sqrt s) * (1 + b)"
    using fl_rel [OF mm] by blast
  have d: "0 < fl (fl (sqrt s) * fl (sqrt s))" using m by (intro fl_pos) simp
  have q: "s / fl (fl (sqrt s) * fl (sqrt s)) \<noteq> 0" using assms d by simp
  obtain c where c: "\<bar>c\<bar> \<le> 1 / 2 ^ 53"
      "fl (s / fl (fl (sqrt s) * fl (sqrt s))) = s / fl (fl (sqrt s) * fl (sqrt s)) * (1 + c)"
    using fl_rel [OF q] by blast
  have ss: "sqrt s * sqrt s = s" using assms by simp
  have "fl (sqrt s) * fl (sqrt s) = (sqrt s * sqrt s) * ((1 + a) * (1 + a))"
    by (simp only: a(2)) (simp add: algebra_simps)
  then have prod: "fl (sqrt s) * fl (sqrt s) = s * ((1 + a) * (1 + a))"
    by (simp only: ss)
  have "fl (fl (sqrt s) * fl (sqrt s)) = s * ((1 + a) * (1 + a)) * (1 + b)"
    using b(2) by (simp only: prod)
  then have den: "fl (fl (sqrt s) * fl (sqrt s)) = s * ((1 + a) * (1 + a) * (1 + b))"
    by (simp only: mult.assoc)
  have "s / (s * ((1 + a) * (1 + a) * (1 + b))) * (1 + c) = (1 + c) / ((1 + a) * (1 + a) * (1 + b))"
    using assms by simp
  then have "fl (s / fl (fl (sqrt s) * fl (sqrt s))) = (1 + c) / ((1 + a) * (1 + a) * (1 + b))"
    using c(2) by (simp only: den)
  then show "\<bar>fdiv s (fmul (fsqrt s) (fsqrt s)) - 1\<bar> \<le> 1 / 2 ^ 50"
    using quotient_near_one [OF a(1) b(1) c(1)] by (simp add: fdiv_def fmul_def fsqrt_def)
qed

lemma fl_one: "fl 1 = 1"
  using fl_binade [of 0 1] by (simp add: powr_neg_numeral round_half_even_def)

lemma fl_two: "fl 2 = 2"
  using fl_binade [of 1 2] by (simp add: powr_neg_numeral round_half_even_def)

lemma fl_sqrt_two: "fl (sqrt 2) = 6369051672525773 / 2 ^ 52"
proof -
  have lo: "1 \<le> sqrt 2" by simp
  have hi: "sqrt 2 < 2" by (rule real_less_lsqrt) simp_all
  have l: "6369051672525773 - 1 / 2 < sqrt 2 * 2 ^ 52"
  proof -
    have "(6369051672525773 - 1 / 2) / 2 ^ 52 < sqrt 2"
      by (rule real_less_rsqrt) (simp add: power2_eq_square)
    then show ?thesis by (simp add: field_simps)
  qed
  have h: "sqrt 2 * 2 ^ 52 < 6369051672525773 + 1 / 2"
  proof -
    have "sqrt 2 < (6369051672525773 + 1 / 2) / 2 ^ 52"
      by (rule real_less_lsqrt) (simp_all add: power2_eq_square)
    then show ?thesis by (simp add: field_simps)
  qed
  have "\<bar>sqrt 2 * 2 ^ 52 - real_of_int 6369051672525773\<bar> < 1 / 2"
    unfolding abs_less_iff using l h by simp
  then have "round_half_even (sqrt 2 * 2 ^ 52) = 6369051672525773"
    by (rule round_half_even_unique)
  then show ?thesis
    using fl_binade [of 0 "sqrt 2"] lo hi by (simp add: powr_neg_numeral)
qed

lemma fl_square: "fl (6369051672525773 / 2 ^ 52 * (6369051672525773 / 2 ^ 52)) = 2 + 1 / 2 ^ 51"
proof -
  let ?x = "6369051672525773 / 2 ^ 52 * (6369051672525773 / 2 ^ 52) :: real"
  have "round_half_even (?x * 2 ^ 51) = 2 ^ 52 + 1"
    by (rule round_half_even_unique) (simp add: abs_less_iff)
  then show ?thesis
    using fl_binade [of 1 ?x] by (simp add: powr_neg_numeral)
qed

lemma fl_quotient: "fl (2 / (2 + 1 / 2 ^ 51)) = 1 - 1 / 2 ^ 52"
proof -
  let ?x = "2 / (2 + 1 / 2 ^ 51) :: real"
  have "round_half_even (?x * 2 ^ 53) = 2 ^ 53 - 2"
    by (rule round_half_even_unique) (simp add: abs_less_iff)
  then show ?thesis
    using fl_binade [of "-1" ?x] by (simp add: powr_neg_numeral)
qed


lemma fl_exact:
  assumes "2 powr real_of_int e \<le> \<bar>x\<bar>" and "\<bar>x\<bar> < 2 powr (real_of_int e + 1)"
    and "x / 2 powr (real_of_int e - 52) = real_of_int m"
  shows "fl x = x"
proof -
  have "fl x = real_of_int (round_half_even (real_of_int m)) * 2 powr (real_of_int e - 52)"
    using fl_binade [OF assms(1,2)] assms(3) by simp
  also have "\<dots> = x / 2 powr (real_of_int e - 52) * 2 powr (real_of_int e - 52)"
    using assms(3) by simp
  finally show ?thesis by simp
qed

subsection \<open>The similarity\<close>

lemma sum_left_pos_aux:
  "0 < acc \<Longrightarrow> (\<forall>t\<in>set ts. 0 < t) \<Longrightarrow> 0 < foldl fadd acc ts"
proof (induction ts arbitrary: acc)
  case Nil
  then show ?case by simp
next
  case (Cons t ts)
  have "0 < fadd acc t" unfolding fadd_def using Cons.prems by (intro fl_pos) simp
  then show ?case using Cons by simp
qed

lemma sum_left_pos:
  assumes "ts \<noteq> []" and "\<forall>t\<in>set ts. 0 < t"
  shows "0 < sum_left ts"
proof -
  obtain t rest where ts: "ts = t # rest" using assms(1) by (cases ts) auto
  have "0 < fadd 0 t" unfolding fadd_def using assms(2) ts by (intro fl_pos) simp
  then show ?thesis using sum_left_pos_aux [of "fadd 0 t" rest] assms(2) ts
    by (simp add: sum_left_def)
qed

text \<open>
  C3. When fewer than two resource ids occur in both rating vectors, the similarity is 0,
  whatever the ratings are.
\<close>

theorem cosine_similarity_small_overlap:
  assumes "card (common_items a b) < 2"
  shows "cosine_similarity order fsum a b = 0"
  using assms by (simp add: cosine_similarity_def)

theorem cosine_similarity_small_overlap_witness:
  "common_items ex_ratings_one ex_ratings_one = {''r1''}
   \<and> card (common_items ex_ratings_one ex_ratings_one) < 2
   \<and> cosine_similarity ex_order sum_left ex_ratings_one ex_ratings_one = 0"
proof -
  have c: "common_items ex_ratings_one ex_ratings_one = {''r1''}"
    by (simp add: common_items_def keys_def ex_ratings_one_def)
  then have h: "card (common_items ex_ratings_one ex_ratings_one) < 2" by simp
  show ?thesis using c h cosine_similarity_small_overlap [OF h, of ex_order sum_left] by simp
qed

lemma common_items_commute: "common_items a b = common_items b a"
  by (auto simp: common_items_def)

lemma fmul_commute: "fmul x y = fmul y x"
  by (simp add: fmul_def mult.commute)

lemma cosine_similarity_commute:
  "cosine_similarity order fsum a b = cosine_similarity order fsum b a"
  unfolding cosine_similarity_def common_items_commute [of a b] Let_def
    fmul_commute [of "fsqrt (fsum (map (\<lambda>i. fsquare (item a i)) (order (common_items b a))))"]
  by (simp add: fmul_commute [of "item a _"] disj_commute)

lemma cosine_similarity_self:
  assumes card: "2 \<le> card (keys a)"
    and range: "\<forall>k\<in>keys a. 1 \<le> item a k \<and> item a k \<le> 5"
    and order: "set (order (keys a)) = keys a"
    and fsum: "\<forall>ts. ts \<noteq> [] \<and> (\<forall>t\<in>set ts. 0 < t) \<longrightarrow> 0 < fsum ts"
  shows "\<bar>cosine_similarity order fsum a a - 1\<bar> \<le> 1 / 2 ^ 50"
proof -
  let ?ts = "map (\<lambda>i. fsquare (item a i)) (order (keys a))"
  have K: "common_items a a = keys a" by (simp add: common_items_def)
  have "keys a \<noteq> {}" using card by auto
  then have ne: "?ts \<noteq> []" using order by auto
  have pos: "\<forall>t\<in>set ?ts. 0 < t"
  proof
    fix t assume "t \<in> set ?ts"
    then obtain k where k: "k \<in> keys a" and t: "t = fsquare (item a k)" using order by auto
    have "0 < item a k * item a k" using range k by (intro mult_pos_pos) force+
    then show "0 < t" unfolding t fsquare_def by (rule fl_pos)
  qed
  have s: "0 < fsum ?ts" using fsum ne pos by blast
  have dot: "map (\<lambda>i. fmul (item a i) (item a i)) (order (keys a)) = ?ts"
    by (simp add: fmul_def fsquare_def)
  have "cosine_similarity order fsum a a = fdiv (fsum ?ts) (fmul (fsqrt (fsum ?ts)) (fsqrt (fsum ?ts)))"
    using card self_quotient(2) [OF s] unfolding cosine_similarity_def K Let_def dot by simp
  then show ?thesis using self_quotient(1) [OF s] by simp
qed

text \<open>
  C8, as the code has it. The similarity is symmetric. For a rating vector with at least two
  resources whose ratings all lie between 1 and 5, the similarity of the vector with itself
  differs from 1 by at most \<open>2\<^sup>-\<^sup>5\<^sup>0\<close>; this holds for every runtime in which the
  iteration of the key set visits exactly the keys and the sum of positive floats is
  positive.
\<close>

theorem cosine_similarity_symmetric_near_one:
  "cosine_similarity order fsum a b = cosine_similarity order fsum b a
   \<and> (2 \<le> card (keys a) \<and> (\<forall>k\<in>keys a. 1 \<le> item a k \<and> item a k \<le> 5)
        \<and> set (order (keys a)) = keys a
        \<and> (\<forall>ts. ts \<noteq> [] \<and> (\<forall>t\<in>set ts. 0 < t) \<longrightarrow> 0 < fsum ts)
      \<longrightarrow> \<bar>cosine_similarity order fsum a a - 1\<bar> \<le> 1 / 2 ^ 50)"
  using cosine_similarity_commute cosine_similarity_self by blast

lemma fl_nine: "fl 9 = 9"
  by (rule fl_exact [of 3 _ "9 * 2 ^ 49"]) (simp_all add: powr_neg_numeral)

lemma fl_sixteen: "fl 16 = 16"
  by (rule fl_exact [of 4 _ "2 ^ 52"]) (simp_all add: powr_neg_numeral)

lemma fl_twenty_five: "fl 25 = 25"
  by (rule fl_exact [of 4 _ "25 * 2 ^ 48"]) (simp_all add: powr_neg_numeral)

lemma fl_five: "fl 5 = 5"
  by (rule fl_exact [of 2 _ "5 * 2 ^ 50"]) (simp_all add: powr_neg_numeral)

lemma sqrt_25: "sqrt 25 = 5"
  by (rule real_sqrt_unique) simp_all

lemma ex_keys_ones: "keys ex_ratings_ones = {''x'', ''y''}"
  by (auto simp: keys_def ex_ratings_ones_def)

lemma ex_order_ones: "ex_order {''x'', ''y''} = [''x'', ''y'']"
  by (simp add: ex_order_def)

lemma ex_keys_a: "keys ex_ratings_a = {''r1'', ''r2''}"
  by (auto simp: keys_def ex_ratings_a_def)

lemma ex_order_a: "ex_order {''r1'', ''r2''} = [''r1'', ''r2'']"
  by (simp add: ex_order_def)

lemma ex_similarity_ones:
  "cosine_similarity ex_order sum_left ex_ratings_ones ex_ratings_ones = 1 - 1 / 2 ^ 52"
proof -
  have i: "item ex_ratings_ones ''x'' = 1" "item ex_ratings_ones ''y'' = 1"
    by (simp_all add: item_def ex_ratings_ones_def)
  have dot: "sum_left (map (\<lambda>i. fmul (item ex_ratings_ones i) (item ex_ratings_ones i)) [''x'', ''y'']) = 2"
    by (simp add: i sum_left_def fadd_def fmul_def fl_one fl_two)
  have sq: "sum_left (map (\<lambda>i. fsquare (item ex_ratings_ones i)) [''x'', ''y'']) = 2"
    by (simp add: i sum_left_def fadd_def fsquare_def fl_one fl_two)
  have m: "fsqrt 2 = 6369051672525773 / 2 ^ 52"
    unfolding fsqrt_def by (rule fl_sqrt_two)
  have d: "fmul (fsqrt 2) (fsqrt 2) = 2 + 1 / 2 ^ 51"
    unfolding m fmul_def by (rule fl_square)
  have q: "fdiv 2 (fmul (fsqrt 2) (fsqrt 2)) = 1 - 1 / 2 ^ 52"
    unfolding d fdiv_def by (rule fl_quotient)
  have nz: "fsqrt 2 \<noteq> 0" unfolding m by simp
  have c: "\<not> card {''x'', ''y''} < 2" by simp
  show ?thesis
    unfolding cosine_similarity_def common_items_def ex_keys_ones Int_absorb Let_def ex_order_ones
      dot sq
    using nz c q by (simp only: if_False simp_thms)
qed

text \<open>
  The claim C8 as written fails: for the ratings 1 and 1 the sum of squares is 2, the
  rounded root of 2 squared and rounded is \<open>2 + 2\<^sup>-\<^sup>5\<^sup>1\<close>, and the rounded quotient is
  \<open>1 - 2\<^sup>-\<^sup>5\<^sup>2\<close>, the double 0.9999999999999998.
\<close>

theorem cosine_similarity_self_counterexample:
  "2 \<le> card (keys ex_ratings_ones)
   \<and> item ex_ratings_ones ''x'' = 1 \<and> item ex_ratings_ones ''y'' = 1
   \<and> cosine_similarity ex_order sum_left ex_ratings_ones ex_ratings_ones = 1 - 1 / 2 ^ 52
   \<and> cosine_similarity ex_order sum_left ex_ratings_ones ex_ratings_ones \<noteq> 1"
proof -
  have i: "item ex_ratings_ones ''x'' = 1" "item ex_ratings_ones ''y'' = 1"
    by (simp_all add: item_def ex_ratings_ones_def)
  have c: "2 \<le> card (keys ex_ratings_ones)" by (simp add: ex_keys_ones)
  have n: "cosine_similarity ex_order sum_left ex_ratings_ones ex_ratings_ones \<noteq> 1"
    unfolding ex_similarity_ones by simp
  show ?thesis using i c ex_similarity_ones n by blast
qed

lemma ex_similarity_a: "cosine_similarity ex_order sum_left ex_ratings_a ex_ratings_a = 1"
proof -
  have i: "item ex_ratings_a ''r1'' = 3" "item ex_ratings_a ''r2'' = 4"
    by (simp_all add: item_def ex_ratings_a_def)
  have dot: "sum_left (map (\<lambda>i. fmul (item ex_ratings_a i) (item ex_ratings_a i)) [''r1'', ''r2'']) = 25"
    by (simp add: i sum_left_def fadd_def fmul_def fl_nine fl_sixteen fl_twenty_five)
  have sq: "sum_left (map (\<lambda>i. fsquare (item ex_ratings_a i)) [''r1'', ''r2'']) = 25"
    by (simp add: i sum_left_def fadd_def fsquare_def fl_nine fl_sixteen fl_twenty_five)
  have m: "fsqrt 25 = 5" by (simp add: fsqrt_def sqrt_25 fl_five)
  have d: "fmul (fsqrt 25) (fsqrt 25) = 25" unfolding m by (simp add: fmul_def fl_twenty_five)
  have q: "fdiv 25 (fmul (fsqrt 25) (fsqrt 25)) = 1" unfolding d by (simp add: fdiv_def fl_one)
  have nz: "fsqrt 25 \<noteq> 0" unfolding m by simp
  have c: "\<not> card {''r1'', ''r2''} < 2" by simp
  show ?thesis
    unfolding cosine_similarity_def common_items_def ex_keys_a Int_absorb Let_def ex_order_a
      dot sq
    using nz c q by (simp only: if_False simp_thms)
qed

theorem cosine_similarity_symmetric_near_one_witness:
  "2 \<le> card (keys ex_ratings_a)
   \<and> item ex_ratings_a ''r1'' = 3 \<and> item ex_ratings_a ''r2'' = 4
   \<and> set (ex_order (keys ex_ratings_a)) = keys ex_ratings_a
   \<and> 0 < sum_left [9, 16]
   \<and> cosine_similarity ex_order sum_left ex_ratings_a ex_ratings_a = 1
   \<and> \<bar>cosine_similarity ex_order sum_left ex_ratings_a ex_ratings_a - 1\<bar> \<le> 1 / 2 ^ 50
   \<and> cosine_similarity ex_order sum_left ex_ratings_a ex_ratings_b
       = cosine_similarity ex_order sum_left ex_ratings_b ex_ratings_a"
proof -
  have i: "item ex_ratings_a ''r1'' = 3" "item ex_ratings_a ''r2'' = 4"
    by (simp_all add: item_def ex_ratings_a_def)
  have c: "2 \<le> card (keys ex_ratings_a)" by (simp add: ex_keys_a)
  have r: "\<forall>k\<in>keys ex_ratings_a. 1 \<le> item ex_ratings_a k \<and> item ex_ratings_a k \<le> 5"
    by (simp add: ex_keys_a i)
  have ord: "set (ex_order (keys ex_ratings_a)) = keys ex_ratings_a"
    by (simp add: ex_keys_a ex_order_a)
  have f: "\<forall>ts. ts \<noteq> [] \<and> (\<forall>t\<in>set ts. 0 < t) \<longrightarrow> 0 < sum_left ts"
    using sum_left_pos by blast
  have p: "0 < sum_left [9, 16]" by (rule sum_left_pos) simp_all
  note inst = cosine_similarity_symmetric_near_one [of ex_order sum_left ex_ratings_a ex_ratings_b]
  have near: "\<bar>cosine_similarity ex_order sum_left ex_ratings_a ex_ratings_a - 1\<bar> \<le> 1 / 2 ^ 50"
    using inst c r ord f by blast
  have sym: "cosine_similarity ex_order sum_left ex_ratings_a ex_ratings_b
       = cosine_similarity ex_order sum_left ex_ratings_b ex_ratings_a"
    using inst by blast
  show ?thesis using c i ord p ex_similarity_a near sym by blast
qed

section \<open>Properties of the study decision\<close>

lemma sort_key_Nil: "sort_key k xs = [] \<longleftrightarrow> xs = []"
  by (metis length_sort length_0_conv)

lemma sort_desc_Nil [simp]: "sort_desc k xs = [] \<longleftrightarrow> xs = []"
  by (simp add: sort_desc_def sort_key_Nil)

lemma insort_key_map:
  "(\<And>x. k (g x) = k x) \<Longrightarrow> insort_key k (g x) (map g xs) = map g (insort_key k x xs)"
  by (induction xs) auto

lemma sort_key_map:
  "(\<And>x. k (g x) = k x) \<Longrightarrow> sort_key k (map g xs) = map g (sort_key k xs)"
  by (induction xs) (simp_all add: insort_key_map)

lemma sort_desc_map:
  "(\<And>x. k (g x) = k x) \<Longrightarrow> sort_desc k (map g xs) = map g (sort_desc k xs)"
  by (simp add: sort_desc_def rev_map sort_key_map)

text \<open>
  C9. \<^verbatim>\<open>get_recommendation\<close> fails with an \<^verbatim>\<open>IndexError\<close> when the request has no
  module, and returns a decision for every request with at least one module.
\<close>

theorem get_recommendation_needs_module:
  "(modules request = [] \<longrightarrow> get_recommendation fromisoformat now chat_completion request = Inl IndexError)
   \<and> (modules request \<noteq> [] \<longrightarrow> (\<exists>d. get_recommendation fromisoformat now chat_completion request = Inr d))"
proof (intro conjI impI)
  assume "modules request = []"
  then show "get_recommendation fromisoformat now chat_completion request = Inl IndexError"
    by (simp add: get_recommendation_def sort_desc_def)
next
  assume ne: "modules request \<noteq> []"
  let ?scores = "sort_desc snd
              (map (\<lambda>m. (m, calculate_module_score fromisoformat now m request)) (modules request))"
  have "?scores \<noteq> []" using ne by simp
  then obtain top rest where "?scores = top # rest" by (cases ?scores) auto
  then show "\<exists>d. get_recommendation fromisoformat now chat_completion request = Inr d"
    by (cases top) (simp add: get_recommendation_def Let_def)
qed

theorem get_recommendation_needs_module_witness:
  "modules (ex_request []) = []
   \<and> get_recommendation ex_fromisoformat ex_now ex_chat_completion (ex_request []) = Inl IndexError
   \<and> modules (ex_request [ex_module None]) \<noteq> []
   \<and> get_recommendation ex_fromisoformat ex_now ex_chat_completion (ex_request [ex_module None]) =
       Inr \<lparr>recommendedModule = \<lparr>rm_id = ''1'', rm_name = ''Math'', reason = ''Good time to review''\<rparr>,
            recommendedActivity = ''revise'', suggestedDuration = 60,
            explanation = ''Study Math'', confidence = 0.8\<rparr>"
proof -
  have e: "modules (ex_request []) = []" by (simp add: ex_request_def)
  have n: "modules (ex_request [ex_module None]) \<noteq> []" by (simp add: ex_request_def)
  have v: "get_recommendation ex_fromisoformat ex_now ex_chat_completion (ex_request [ex_module None]) =
       Inr \<lparr>recommendedModule = \<lparr>rm_id = ''1'', rm_name = ''Math'', reason = ''Good time to review''\<rparr>,
            recommendedActivity = ''revise'', suggestedDuration = 60,
            explanation = ''Study Math'', confidence = 0.8\<rparr>"
    by (simp add: get_recommendation_def ex_request_def ex_module_def sort_desc_def Let_def
        determine_activity_def calculate_duration_def activity_multiplier_def py_int_def
        ex_chat_completion_def calculate_confidence_def get_reason_def reasons_of_def)
  show ?thesis
    using get_recommendation_needs_module [of "ex_request []" ex_fromisoformat ex_now ex_chat_completion] e n v
    by simp
qed

lemma unparseable_days: "fromisoformat (replace_Z s) = None \<Longrightarrow> days_until_exam fromisoformat now s = None"
  by (simp add: days_until_exam_def)

lemma unparseable_score:
  assumes "examDate m = Some s" and "fromisoformat (replace_Z s) = None"
  shows "calculate_module_score fromisoformat now m request =
         calculate_module_score fromisoformat now (m\<lparr>examDate := None\<rparr>) request"
  using assms by (simp add: calculate_module_score_def unparseable_days Let_def split: option.splits)

lemma unparseable_reasons:
  assumes "examDate m = Some s" and "fromisoformat (replace_Z s) = None"
  shows "reasons_of fromisoformat now m = reasons_of fromisoformat now (m\<lparr>examDate := None\<rparr>)"
  using assms by (simp add: reasons_of_def unparseable_days Let_def split: option.splits)

lemma reasons_without_exam:
  "set (reasons_of fromisoformat now (m\<lparr>examDate := None\<rparr>))
     \<subseteq> {''Low progress'', ''High difficulty'', ''Good time to review''}"
  by (auto simp: reasons_of_def Let_def split: option.splits)

lemma get_recommendation_forget:
  assumes "examDate m = Some s" and "fromisoformat (replace_Z s) = None"
  shows "get_recommendation fromisoformat now chat_completion request =
         get_recommendation fromisoformat now chat_completion
           (request\<lparr>modules := map (forget_exam m) (modules request)\<rparr>)"
proof -
  let ?g = "forget_exam m"
  let ?request' = "request\<lparr>modules := map ?g (modules request)\<rparr>"
  let ?score = "\<lambda>r x. calculate_module_score fromisoformat now x r"
  have same_req: "?score ?request' x = ?score request x" for x
    by (simp add: calculate_module_score_def)
  have same_mod: "?score request (?g x) = ?score request x" for x
    using unparseable_score [of m s fromisoformat now request] assms by (simp add: forget_exam_def)
  have reason: "get_reason fromisoformat now (?g x) = get_reason fromisoformat now x" for x
    using unparseable_reasons [of m s fromisoformat now] assms by (simp add: forget_exam_def get_reason_def)
  have fields: "m_id (?g x) = m_id x" "name (?g x) = name x" "difficulty (?g x) = difficulty x" for x
    by (simp_all add: forget_exam_def)
  let ?scores = "sort_desc snd (map (\<lambda>x. (x, ?score request x)) (modules request))"
  have "map (\<lambda>x. (x, ?score ?request' x)) (modules ?request')
        = map (apfst ?g) (map (\<lambda>x. (x, ?score request x)) (modules request))"
    by (simp add: same_req same_mod)
  then have sorted: "sort_desc snd (map (\<lambda>x. (x, ?score ?request' x)) (modules ?request'))
        = map (apfst ?g) ?scores"
    by (simp only: sort_desc_map [of snd "apfst ?g", OF snd_apfst])
  show ?thesis
  proof (cases ?scores)
    case Nil
    then have "modules request = []" by simp
    then show ?thesis
      by (simp add: get_recommendation_def sort_desc_def)
  next
    case (Cons top rest)
    obtain x sc where top: "top = (x, sc)" by (cases top)
    show ?thesis
      apply (simp only: get_recommendation_def sorted)
      apply (simp only: Cons top)
      apply (simp add: Let_def fields reason comp_def)
      done
  qed
qed

text \<open>
  C10. When \<^verbatim>\<open>datetime.fromisoformat\<close> rejects the exam date of a module of the request,
  the module is scored as if it had no exam date, its reasons are those of the module without
  exam date (none of them is an exam reason), and the call returns a decision: the same one
  as for the request whose module list has that exam date erased.
\<close>

theorem unparseable_exam_date_ignored:
  assumes "m \<in> set (modules request)"
    and "examDate m = Some s" and "fromisoformat (replace_Z s) = None"
  shows "calculate_module_score fromisoformat now m request =
           calculate_module_score fromisoformat now (m\<lparr>examDate := None\<rparr>) request
       \<and> reasons_of fromisoformat now m = reasons_of fromisoformat now (m\<lparr>examDate := None\<rparr>)
       \<and> set (reasons_of fromisoformat now m)
           \<subseteq> {''Low progress'', ''High difficulty'', ''Good time to review''}
       \<and> (\<exists>d. get_recommendation fromisoformat now chat_completion request = Inr d
              \<and> get_recommendation fromisoformat now chat_completion
                   (request\<lparr>modules := map (forget_exam m) (modules request)\<rparr>) = Inr d)"
proof -
  have ne: "modules request \<noteq> []" using assms(1) by auto
  let ?scores = "sort_desc snd
              (map (\<lambda>m. (m, calculate_module_score fromisoformat now m request)) (modules request))"
  have "?scores \<noteq> []" using ne by simp
  then obtain top rest where "?scores = top # rest" by (cases ?scores) auto
  then have "\<exists>d. get_recommendation fromisoformat now chat_completion request = Inr d"
    by (cases top) (simp add: get_recommendation_def Let_def)
  then have "\<exists>d. get_recommendation fromisoformat now chat_completion request = Inr d
              \<and> get_recommendation fromisoformat now chat_completion
                   (request\<lparr>modules := map (forget_exam m) (modules request)\<rparr>) = Inr d"
    using get_recommendation_forget [of m s fromisoformat now chat_completion request] assms(2,3) by metis
  moreover have "set (reasons_of fromisoformat now m)
           \<subseteq> {''Low progress'', ''High difficulty'', ''Good time to review''}"
    using unparseable_reasons [of m s fromisoformat now] assms(2,3) reasons_without_exam [of fromisoformat now m]
    by simp
  ultimately show ?thesis
    using unparseable_score [of m s fromisoformat now request] unparseable_reasons [of m s fromisoformat now]
      assms(2,3) by blast
qed

lemma ex_unparseable: "ex_fromisoformat (replace_Z ''next friday'') = None"
  by (simp add: ex_fromisoformat_def replace_Z_def)

lemma ex_score_plain:
  "calculate_module_score ex_fromisoformat ex_now (ex_module None) (ex_request ms) = 75 / 2"
  by (simp add: calculate_module_score_def ex_module_def ex_request_def difficulty_weight_def
      mood_multiplier_def Let_def)

theorem unparseable_exam_date_ignored_witness:
  "ex_module (Some ''next friday'') \<in> set (modules (ex_request [ex_module (Some ''next friday'')]))
   \<and> examDate (ex_module (Some ''next friday'')) = Some ''next friday''
   \<and> ex_fromisoformat (replace_Z ''next friday'') = None
   \<and> calculate_module_score ex_fromisoformat ex_now (ex_module (Some ''next friday''))
        (ex_request [ex_module (Some ''next friday'')]) = 75 / 2
   \<and> reasons_of ex_fromisoformat ex_now (ex_module (Some ''next friday'')) = [''Good time to review'']
   \<and> get_recommendation ex_fromisoformat ex_now ex_chat_completion
        (ex_request [ex_module (Some ''next friday'')]) =
       Inr \<lparr>recommendedModule = \<lparr>rm_id = ''1'', rm_name = ''Math'', reason = ''Good time to review''\<rparr>,
            recommendedActivity = ''revise'', suggestedDuration = 60,
            explanation = ''Study Math'', confidence = 0.8\<rparr>"
proof -
  let ?m = "ex_module (Some ''next friday'')"
  let ?r = "ex_request [?m]"
  have h1: "?m \<in> set (modules ?r)" by (simp add: ex_request_def)
  have h2: "examDate ?m = Some ''next friday''" by (simp add: ex_module_def)
  have none: "?m\<lparr>examDate := None\<rparr> = ex_module None" by (simp add: ex_module_def)
  have forget: "?r\<lparr>modules := map (forget_exam ?m) (modules ?r)\<rparr> = ex_request [ex_module None]"
    by (simp add: ex_request_def forget_exam_def none)
  have plain: "reasons_of ex_fromisoformat ex_now (ex_module None) = [''Good time to review'']"
    by (simp add: reasons_of_def ex_module_def)
  have decision: "get_recommendation ex_fromisoformat ex_now ex_chat_completion (ex_request [ex_module None]) =
       Inr \<lparr>recommendedModule = \<lparr>rm_id = ''1'', rm_name = ''Math'', reason = ''Good time to review''\<rparr>,
            recommendedActivity = ''revise'', suggestedDuration = 60,
            explanation = ''Study Math'', confidence = 0.8\<rparr>"
    by (simp add: get_recommendation_def ex_request_def ex_module_def sort_desc_def Let_def
        determine_activity_def calculate_duration_def activity_multiplier_def py_int_def
        ex_chat_completion_def calculate_confidence_def get_reason_def reasons_of_def)
  show ?thesis
    using unparseable_exam_date_ignored [of ?m ?r "''next friday''" ex_fromisoformat ex_now ex_chat_completion,
        OF h1 h2 ex_unparseable]
      h1 h2 ex_unparseable
    unfolding none forget
    by (auto simp: ex_score_plain plain decision)
qed

lemma naive_days:
  "fromisoformat (replace_Z s) = Some (Naive t) \<Longrightarrow>
   days_until_exam fromisoformat now s = Some ((t - now) div day_us)"
  by (simp add: days_until_exam_def)

lemma aware_days:
  "fromisoformat (replace_Z s) = Some (Aware t) \<Longrightarrow> days_until_exam fromisoformat now s = None"
  by (simp add: days_until_exam_def)

text \<open>
  What the code does for an exam date that is a naive datetime at least one whole day after
  \<open>now\<close>: \<open>(exam_date - now).days\<close> is positive and the score is the score of the same
  module without exam date plus the proximity bonus \<open>100 / (1 + days / 7)\<close> carried through
  the mood and energy multipliers.
\<close>

lemma exam_bonus_from_one_day:
  assumes "examDate m = Some s" and "s \<noteq> []"
    and "fromisoformat (replace_Z s) = Some (Naive t)"
    and "now + day_us \<le> t"
  shows "0 < (t - now) div day_us
       \<and> calculate_module_score fromisoformat now m request =
           calculate_module_score fromisoformat now (m\<lparr>examDate := None\<rparr>) request
           + 100 / (1 + real_of_int ((t - now) div day_us) / 7)
             * mood_multiplier (mood request) * (real_of_int (energyLevel request) / 10)"
proof -
  have d: "days_until_exam fromisoformat now s = Some ((t - now) div day_us)"
    using assms(3) by (rule naive_days)
  have "1 \<le> (t - now) div day_us"
  proof -
    have "day_us \<le> t - now" using assms(4) by simp
    moreover have "0 < day_us" by (simp add: day_us_def)
    ultimately have "day_us div day_us \<le> (t - now) div day_us" by (intro zdiv_mono1) simp_all
    then show ?thesis using \<open>0 < day_us\<close> by simp
  qed
  then have pos: "0 < (t - now) div day_us" by simp
  show ?thesis
    using assms(1,2) pos
    by (simp add: calculate_module_score_def Let_def d proximity_score_def algebra_simps
        split: option.splits)
qed

lemma ex_parse_mid: "ex_fromisoformat (replace_Z ''2030-01-15T00:00:00'') = Some (Naive 1894665600000000)"
  by (simp add: ex_fromisoformat_def replace_Z_def)

lemma ex_parse_noon: "ex_fromisoformat (replace_Z ''2030-01-01T12:00:00'') = Some (Naive 1893499200000000)"
  by (simp add: ex_fromisoformat_def replace_Z_def)

lemma ex_parse_zulu: "ex_fromisoformat (replace_Z ''2030-01-15T00:00:00Z'') = Some (Aware 1894665600000000)"
  by (simp add: ex_fromisoformat_def replace_Z_def)

lemma exam_bonus_fourteen_days:
  "examDate (ex_module (Some ''2030-01-15T00:00:00'')) = Some ''2030-01-15T00:00:00''
   \<and> ex_fromisoformat (replace_Z ''2030-01-15T00:00:00'') = Some (Naive 1894665600000000)
   \<and> ex_now + day_us \<le> 1894665600000000
   \<and> (1894665600000000 - ex_now) div day_us = 14
   \<and> calculate_module_score ex_fromisoformat ex_now (ex_module (Some ''2030-01-15T00:00:00''))
        (ex_request [ex_module (Some ''2030-01-15T00:00:00'')])
      = 75 / 2 + 100 / (1 + 14 / 7) * 1 * (5 / 10)"
proof -
  let ?s = "''2030-01-15T00:00:00''"
  let ?m = "ex_module (Some ?s)"
  have h1: "examDate ?m = Some ?s" by (simp add: ex_module_def)
  have h2: "?s \<noteq> []" by simp
  have h4: "ex_now + day_us \<le> 1894665600000000" by (simp add: ex_now_def day_us_def)
  have days: "(1894665600000000 - ex_now) div day_us = 14" by (simp add: ex_now_def day_us_def)
  have none: "?m\<lparr>examDate := None\<rparr> = ex_module None" by (simp add: ex_module_def)
  have mm: "mood_multiplier (mood (ex_request [?m])) = 1" "energyLevel (ex_request [?m]) = 5"
    by (simp_all add: ex_request_def mood_multiplier_def)
  show ?thesis
    using exam_bonus_from_one_day [of ?m ?s ex_fromisoformat 1894665600000000 ex_now "ex_request [?m]",
        OF h1 h2 ex_parse_mid h4]
      h1 ex_parse_mid h4
    unfolding none days ex_score_plain mm
    by simp
qed

text \<open>
  C4 does not hold of the code. For a module whose exam is twelve hours after \<open>now\<close> the
  exam date is set and lies strictly in the future, \<open>(exam_date - now).days\<close> is 0, and the
  score is 37.5, the score of the same module without exam date: no bonus is included,
  where the bonus \<open>100 / (1 + 0 / 7)\<close> of the claim gives 87.5. The same module with its exam
  fourteen days ahead scores 325/6, so the closer exam has the lower priority.
\<close>

theorem exam_within_a_day_gets_no_bonus:
  "examDate (ex_module (Some ''2030-01-01T12:00:00'')) = Some ''2030-01-01T12:00:00''
   \<and> ex_fromisoformat (replace_Z ''2030-01-01T12:00:00'') = Some (Naive 1893499200000000)
   \<and> ex_now < 1893499200000000
   \<and> (1893499200000000 - ex_now) div day_us = 0
   \<and> calculate_module_score ex_fromisoformat ex_now (ex_module (Some ''2030-01-01T12:00:00''))
        (ex_request [ex_module (Some ''2030-01-01T12:00:00'')]) = 75 / 2
   \<and> calculate_module_score ex_fromisoformat ex_now (ex_module None)
        (ex_request [ex_module (Some ''2030-01-01T12:00:00'')]) = 75 / 2
   \<and> calculate_module_score ex_fromisoformat ex_now (ex_module None)
        (ex_request [ex_module (Some ''2030-01-01T12:00:00'')])
       + 100 / (1 + real_of_int ((1893499200000000 - ex_now) div day_us) / 7)
         * mood_multiplier (mood (ex_request [ex_module (Some ''2030-01-01T12:00:00'')]))
         * (real_of_int (energyLevel (ex_request [ex_module (Some ''2030-01-01T12:00:00'')])) / 10)
       = 175 / 2
   \<and> calculate_module_score ex_fromisoformat ex_now (ex_module (Some ''2030-01-15T00:00:00''))
        (ex_request [ex_module (Some ''2030-01-15T00:00:00'')]) = 325 / 6
   \<and> calculate_module_score ex_fromisoformat ex_now (ex_module (Some ''2030-01-01T12:00:00''))
        (ex_request [ex_module (Some ''2030-01-01T12:00:00'')])
       < calculate_module_score ex_fromisoformat ex_now (ex_module (Some ''2030-01-15T00:00:00''))
           (ex_request [ex_module (Some ''2030-01-15T00:00:00'')])"
proof -
  let ?s = "''2030-01-01T12:00:00''"
  let ?r = "ex_request [ex_module (Some ?s)]"
  let ?m14 = "ex_module (Some ''2030-01-15T00:00:00'')"
  have c1: "examDate (ex_module (Some ?s)) = Some ?s" by (simp add: ex_module_def)
  have c3: "ex_now < 1893499200000000" by (simp add: ex_now_def)
  have c4: "(1893499200000000 - ex_now) div day_us = 0" by (simp add: ex_now_def day_us_def)
  have d: "days_until_exam ex_fromisoformat ex_now ?s = Some 0"
    using naive_days [of ex_fromisoformat ?s 1893499200000000 ex_now] ex_parse_noon c4 by simp
  have c5: "calculate_module_score ex_fromisoformat ex_now (ex_module (Some ?s)) ?r = 75 / 2"
    by (simp add: calculate_module_score_def ex_module_def ex_request_def difficulty_weight_def
      mood_multiplier_def Let_def d)
  have c6: "calculate_module_score ex_fromisoformat ex_now (ex_module None) ?r = 75 / 2"
    by (rule ex_score_plain)
  have mm: "mood_multiplier (mood ?r) = 1" "energyLevel ?r = 5"
    by (simp_all add: ex_request_def mood_multiplier_def)
  have c7: "calculate_module_score ex_fromisoformat ex_now (ex_module None) ?r
       + 100 / (1 + real_of_int ((1893499200000000 - ex_now) div day_us) / 7)
         * mood_multiplier (mood ?r) * (real_of_int (energyLevel ?r) / 10) = 175 / 2"
    unfolding c4 mm ex_score_plain by simp
  have c8: "calculate_module_score ex_fromisoformat ex_now ?m14 (ex_request [?m14]) = 325 / 6"
    using exam_bonus_fourteen_days by simp
  have c9: "calculate_module_score ex_fromisoformat ex_now (ex_module (Some ?s)) ?r
       < calculate_module_score ex_fromisoformat ex_now ?m14 (ex_request [?m14])"
    unfolding c5 c8 by simp
  show ?thesis
    using c1 ex_parse_noon c3 c4 c5 c6 c7 c8 c9 by blast
qed

text \<open>
  An exam date with a zone designator parses to an aware datetime; subtracting the naive
  \<open>now\<close> raises, the bare \<^verbatim>\<open>except\<close> swallows it, and no bonus is added.
\<close>

lemma aware_exam_date_no_bonus:
  "calculate_module_score ex_fromisoformat ex_now (ex_module (Some ''2030-01-15T00:00:00Z''))
        (ex_request [ex_module (Some ''2030-01-15T00:00:00Z'')]) = 75 / 2"
proof -
  have d: "days_until_exam ex_fromisoformat ex_now ''2030-01-15T00:00:00Z'' = None"
    using aware_days [of ex_fromisoformat "''2030-01-15T00:00:00Z''" 1894665600000000 ex_now]
      ex_parse_zulu by simp
  show ?thesis
    by (simp add: calculate_module_score_def ex_module_def ex_request_def difficulty_weight_def
      mood_multiplier_def Let_def d)
qed

end
